theory Spec2Isabelle
  imports Main
begin

section \<open>Python strings\<close>

text \<open>
  A Python \<open>str\<close> is modelled as a \<open>string\<close>, read as its UTF-8 bytes. The prompt
  engineer uses three string operations: \<open>str.lower()\<close>, the substring test
  \<open>term in s\<close> and \<open>str.format\<close>.

  \<open>lower\<close> folds the ASCII capitals. Python also folds capitals outside ASCII; those
  occupy bytes above 127 and never take part in a match of one of the (ASCII) keywords
  below, so they are left as they are.
\<close>

definition ascii_uppercase :: string where
  "ascii_uppercase = ''ABCDEFGHIJKLMNOPQRSTUVWXYZ''"

definition ascii_lowercase :: string where
  "ascii_lowercase = ''abcdefghijklmnopqrstuvwxyz''"

definition lower_char :: "char \<Rightarrow> char" where
  "lower_char c =
     (case map_of (zip ascii_uppercase ascii_lowercase) c of Some d \<Rightarrow> d | None \<Rightarrow> c)"

definition lower :: "string \<Rightarrow> string" where
  "lower s = map lower_char s"

text \<open>\<open>str_contains s t\<close> is Python's \<open>t in s\<close>: \<open>t\<close> occurs in \<open>s\<close> as a contiguous run.\<close>

fun str_contains :: "string \<Rightarrow> string \<Rightarrow> bool" where
  "str_contains [] t = (t = [])"
| "str_contains (c # s) t = (take (length t) (c # s) = t \<or> str_contains s t)"


section \<open>Category detection\<close>

text \<open>
  \<open>PromptEngineer.detect_prompt_type\<close>: three keyword lists, tried in the order of the
  \<open>if\<close>/\<open>elif\<close> chain; \<open>any_term_in\<close> is \<open>any(term in prompt_lower for term in terms)\<close>.
\<close>

definition coding_terms :: "string list" where
  "coding_terms =
     [''code'', ''function'', ''program'', ''script'', ''develop'', ''bug'', ''debug'', ''coding'']"

definition creative_terms :: "string list" where
  "creative_terms = [''write'', ''story'', ''creative'', ''design'', ''article'', ''blog'']"

definition analytical_terms :: "string list" where
  "analytical_terms =
     [''analyze'', ''analysis'', ''research'', ''evaluate'', ''compare'', ''explain'', ''reason'']"

definition any_term_in :: "string list \<Rightarrow> string \<Rightarrow> bool" where
  "any_term_in terms s = list_ex (\<lambda>term. str_contains s term) terms"

definition detect_prompt_type :: "string \<Rightarrow> string" where
  "detect_prompt_type prompt =
     (let prompt_lower = lower prompt in
      if any_term_in coding_terms prompt_lower then ''coding''
      else if any_term_in creative_terms prompt_lower then ''creative''
      else if any_term_in analytical_terms prompt_lower then ''analytical''
      else ''default'')"

section \<open>Python values, exceptions and logging\<close>

text \<open>
  Option dictionaries (\<open>Dict[str, Any]\<close>) and the parsed rules file hold dynamically
  typed values: what \<open>json.load\<close> can return, a dictionary being the list of its items
  (keys distinct). \<open>truthy\<close> is Python's truth test, used by \<open>x or y\<close> and \<open>not x\<close>.
  Floating-point numbers are left out: the code modelled here does with a float what it
  does with an integer (it is neither a string nor a dictionary), the type name in the
  message of the exception apart.
\<close>

datatype py_value =
    PyNone
  | PyBool bool
  | PyInt int
  | PyStr string
  | PyList "py_value list"
  | PyDict "(string \<times> py_value) list"

fun truthy :: "py_value \<Rightarrow> bool" where
  "truthy PyNone = False"
| "truthy (PyBool b) = b"
| "truthy (PyInt i) = (i \<noteq> 0)"
| "truthy (PyStr s) = (s \<noteq> [])"
| "truthy (PyList vs) = (vs \<noteq> [])"
| "truthy (PyDict items) = (items \<noteq> [])"

fun type_name :: "py_value \<Rightarrow> string" where
  "type_name PyNone = ''NoneType''"
| "type_name (PyBool b) = ''bool''"
| "type_name (PyInt i) = ''int''"
| "type_name (PyStr s) = ''str''"
| "type_name (PyList vs) = ''list''"
| "type_name (PyDict items) = ''dict''"

type_synonym options = "(string \<times> py_value) list"

definition dict_get :: "options \<Rightarrow> string \<Rightarrow> py_value" where
  "dict_get d k = (case map_of d k of Some v \<Rightarrow> v | None \<Rightarrow> PyNone)"

text \<open>
  An exception (an instance of a subclass of \<open>Exception\<close>) is its class name together
  with its \<open>str(e)\<close>. A raising computation returns \<open>Inl e\<close>.
\<close>

datatype py_exception = PyException string string

fun str_exc :: "py_exception \<Rightarrow> string" where
  "str_exc (PyException cls msg) = msg"

definition quoted :: "string \<Rightarrow> string" where
  "quoted s = [CHR 0x27] @ s @ [CHR 0x27]"

definition KeyError :: "string \<Rightarrow> py_exception" where
  "KeyError k = PyException ''KeyError'' (quoted k)"

definition ValueError :: "string \<Rightarrow> py_exception" where
  "ValueError msg = PyException ''ValueError'' msg"

definition TypeError :: "string \<Rightarrow> py_exception" where
  "TypeError msg = PyException ''TypeError'' msg"

definition AttributeError :: "string \<Rightarrow> py_exception" where
  "AttributeError msg = PyException ''AttributeError'' msg"

text \<open>
  \<open>getitem v k\<close> is \<open>v[k]\<close> for a string key \<open>k\<close>: the value stored in a dictionary, a
  \<open>KeyError\<close> when the key is missing, a \<open>TypeError\<close> for every value that is not a
  dictionary (messages as CPython 3.12 words them).
\<close>

fun getitem :: "py_value \<Rightarrow> string \<Rightarrow> py_exception + py_value" where
  "getitem (PyDict items) k =
     (case map_of items k of None \<Rightarrow> Inl (KeyError k) | Some v \<Rightarrow> Inr v)"
| "getitem (PyStr s) k =
     Inl (TypeError (''string indices must be integers, not '' @ quoted ''str''))"
| "getitem (PyList vs) k =
     Inl (TypeError ''list indices must be integers or slices, not str'')"
| "getitem v k = Inl (TypeError (quoted (type_name v) @ '' object is not subscriptable''))"

text \<open>\<open>str_int\<close> is \<open>str(i)\<close> for an integer, as the f-strings of the log messages use it.\<close>

fun str_nat :: "nat \<Rightarrow> string" where
  "str_nat n =
     (if n < 10 then [''0123456789'' ! n]
      else str_nat (n div 10) @ [''0123456789'' ! (n mod 10)])"

declare str_nat.simps [simp del]

definition str_int :: "int \<Rightarrow> string" where
  "str_int i = (if i < 0 then CHR ''-'' # str_nat (nat (- i)) else str_nat (nat i))"

text \<open>The log is the sequence of calls made to the loggers: level and message.\<close>

datatype log_level = DEBUG | INFO | WARNING | ERROR

type_synonym log_record = "log_level \<times> string"


section \<open>Python's \<open>str.format\<close> with the one keyword argument \<open>prompt\<close>\<close>

text \<open>
  \<open>template.format(prompt=prompt)\<close> copies the template, turning \<open>{{\<close> into \<open>{\<close> and
  \<open>}}\<close> into \<open>}\<close>, and replaces each replacement field. A \<open>}\<close> on its own is a
  \<open>ValueError\<close>, so is a \<open>{\<close> that ends the template. A field that is a plain keyword
  name (letters, digits and underscores, not digits only) closed by \<open>}\<close> is looked up
  among the keyword arguments: \<open>{prompt}\<close> yields the prompt, any other name raises
  \<open>KeyError\<close>. The rest of the format mini-language (positional and automatic
  fields, conversions, format specifications, attribute and index access) is not
  interpreted here: at such a field the outcome for the remaining template is taken from
  the parameter \<open>other\<close>.
\<close>

definition ident_char :: "char \<Rightarrow> bool" where
  "ident_char c \<longleftrightarrow> c \<in> set (ascii_uppercase @ ascii_lowercase @ ''0123456789_'')"

definition digit_char :: "char \<Rightarrow> bool" where
  "digit_char c \<longleftrightarrow> c \<in> set ''0123456789''"

definition plain_field :: "string \<Rightarrow> (string \<times> string) option" where
  "plain_field cs =
     (let name = takeWhile ident_char cs in
      case dropWhile ident_char cs of
        [] \<Rightarrow> None
      | d # rest \<Rightarrow>
          if d = CHR ''}'' \<and> \<not> list_all digit_char name then Some (name, rest) else None)"

definition emit :: "string \<Rightarrow> py_exception + string \<Rightarrow> py_exception + string" where
  "emit s r = (case r of Inl e \<Rightarrow> Inl e | Inr out \<Rightarrow> Inr (s @ out))"

function str_format ::
  "(string \<Rightarrow> string \<Rightarrow> py_exception + string) \<Rightarrow> string \<Rightarrow> string \<Rightarrow> py_exception + string"
where
  "str_format other [] prompt = Inr []"
| "str_format other (c # cs) prompt =
     (if c = CHR ''}'' then
        (case cs of
           [] \<Rightarrow> Inl (ValueError (''Single '' @ quoted ''}'' @ '' encountered in format string''))
         | d # ds \<Rightarrow>
             if d = CHR ''}'' then emit ''}'' (str_format other ds prompt)
             else Inl (ValueError (''Single '' @ quoted ''}'' @ '' encountered in format string'')))
      else if c = CHR ''{'' then
        (case cs of
           [] \<Rightarrow> Inl (ValueError (''Single '' @ quoted ''{'' @ '' encountered in format string''))
         | d # ds \<Rightarrow>
             if d = CHR ''{'' then emit ''{'' (str_format other ds prompt)
             else
               (case plain_field cs of
                  None \<Rightarrow> other cs prompt
                | Some (name, rest) \<Rightarrow>
                    if name = ''prompt'' then emit prompt (str_format other rest prompt)
                    else Inl (KeyError name)))
      else emit [c] (str_format other cs prompt))"
  by pat_completeness auto
termination
proof (relation "measure (\<lambda>(other, template, prompt). length template)")
  show "wf (measure (\<lambda>(other, template, prompt). length template))"
    by simp
next
  fix other :: "string \<Rightarrow> string \<Rightarrow> py_exception + string"
  fix c :: char and cs :: string and prompt :: string and d ds
  assume "cs = d # ds"
  then show "((other, ds, prompt), (other, c # cs, prompt))
      \<in> measure (\<lambda>(other, template, prompt). length template)"
    by simp
next
  fix other :: "string \<Rightarrow> string \<Rightarrow> py_exception + string"
  fix c :: char and cs :: string and prompt :: string and d ds
  assume "cs = d # ds"
  then show "((other, ds, prompt), (other, c # cs, prompt))
      \<in> measure (\<lambda>(other, template, prompt). length template)"
    by simp
next
  fix other :: "string \<Rightarrow> string \<Rightarrow> py_exception + string"
  fix c :: char and cs :: string and prompt :: string and d ds x2 name rest
  assume "plain_field cs = Some x2" and "(name, rest) = x2"
  then obtain d where "dropWhile ident_char cs = d # rest"
    by (auto simp: plain_field_def Let_def split: list.splits if_splits)
  then have "length rest < length cs"
    using length_dropWhile_le [of ident_char cs] by simp
  then show "((other, rest, prompt), (other, c # cs, prompt))
      \<in> measure (\<lambda>(other, template, prompt). length template)"
    by simp
next
  fix other :: "string \<Rightarrow> string \<Rightarrow> py_exception + string"
  fix c :: char and cs :: string and prompt :: string
  show "((other, cs, prompt), (other, c # cs, prompt))
      \<in> measure (\<lambda>(other, template, prompt). length template)"
    by simp
qed

declare str_format.simps [simp del]


text \<open>
  A template whose only braces are those of one \<open>{prompt}\<close> field: the text before the
  field and the text after it.
\<close>

definition before_field :: "string \<Rightarrow> string" where
  "before_field t = takeWhile (\<lambda>c. c \<noteq> CHR ''{'') t"

definition after_field :: "string \<Rightarrow> string" where
  "after_field t = drop (length ''{prompt}'') (dropWhile (\<lambda>c. c \<noteq> CHR ''{'') t)"

definition single_prompt_field :: "string \<Rightarrow> bool" where
  "single_prompt_field t \<longleftrightarrow>
     t = before_field t @ ''{prompt}'' @ after_field t
     \<and> CHR ''}'' \<notin> set (before_field t)
     \<and> CHR ''{'' \<notin> set (after_field t) \<and> CHR ''}'' \<notin> set (after_field t)"


text \<open>
  \<open>format_method other v text\<close> is \<open>v.format(prompt=text)\<close>: only a string has the
  method; on any other value the attribute lookup raises \<open>AttributeError\<close>.
\<close>

fun format_method ::
  "(string \<Rightarrow> string \<Rightarrow> py_exception + string) \<Rightarrow> py_value \<Rightarrow> string \<Rightarrow> py_exception + string"
where
  "format_method other (PyStr t) text = str_format other t text"
| "format_method other v text =
     Inl (AttributeError (quoted (type_name v) @ '' object has no attribute '' @ quoted ''format''))"


section \<open>Enhancement rules\<close>

text \<open>
  A rule as the source writes it is a dictionary with the two keys \<open>system_prompt\<close> and
  \<open>template\<close>: \<open>rule_dict\<close> of a pair of strings. The rule set maps category names to
  values, since the custom rules are whatever the rules file holds.
\<close>

record EnhancementRule =
  system_prompt :: string
  template :: string

definition rule_dict :: "EnhancementRule \<Rightarrow> py_value" where
  "rule_dict r = PyDict [(''system_prompt'', PyStr (system_prompt r)), (''template'', PyStr (template r))]"

definition coding_rule :: EnhancementRule where
  \<open>coding_rule = \<lparr>
     system_prompt = ''You are a professional software developer with expertise in clean code and best practices.'',
     template =
     ''\<newline>'' @
     ''                Consider this coding request: "{prompt}"\<newline>'' @
     ''                \<newline>'' @
     ''                Enhance this request by:\<newline>'' @
     ''                1. Clarifying the programming language if not specified\<newline>'' @
     ''                2. Adding requirements for error handling and edge cases\<newline>'' @
     ''                3. Specifying if documentation is needed\<newline>'' @
     ''                4. Asking for proper formatting and modular design\<newline>'' @
     ''                5. Requesting appropriate comments and variable naming\<newline>'' @
     ''                \<newline>'' @
     ''                Return ONLY the enhanced prompt without explanations or preamble.\<newline>'' @
     ''                ''\<rparr>\<close>

definition creative_rule :: EnhancementRule where
  \<open>creative_rule = \<lparr>
     system_prompt = ''You are a creative writing and content creation expert.'',
     template =
     ''\<newline>'' @
     ''                Consider this creative request: "{prompt}"\<newline>'' @
     ''                \<newline>'' @
     ''                Enhance this request by:\<newline>'' @
     ''                1. Clarifying the style, tone, and format\<newline>'' @
     ''                2. Specifying target audience if relevant\<newline>'' @
     ''                3. Adding structure guidance\<newline>'' @
     ''                4. Including any relevant constraints\<newline>'' @
     ''                5. Specifying length or detail level\<newline>'' @
     ''                \<newline>'' @
     ''                Return ONLY the enhanced prompt without explanations or preamble.\<newline>'' @
     ''                ''\<rparr>\<close>

definition analytical_rule :: EnhancementRule where
  \<open>analytical_rule = \<lparr>
     system_prompt = ''You are an analytical expert specializing in structured thinking and clear analysis.'',
     template =
     ''\<newline>'' @
     ''                Consider this analytical request: "{prompt}"\<newline>'' @
     ''                \<newline>'' @
     ''                Enhance this request by:\<newline>'' @
     ''                1. Adding structure for step-by-step reasoning\<newline>'' @
     ''                2. Specifying the depth of analysis needed\<newline>'' @
     ''                3. Clarifying what metrics or frameworks to use\<newline>'' @
     ''                4. Adding requirements for evidence or citations\<newline>'' @
     ''                5. Requesting specific output format if helpful\<newline>'' @
     ''                \<newline>'' @
     ''                Return ONLY the enhanced prompt without explanations or preamble.\<newline>'' @
     ''                ''\<rparr>\<close>

definition default_rule :: EnhancementRule where
  \<open>default_rule = \<lparr>
     system_prompt = ''You are an expert prompt engineer who improves user prompts for better results.'',
     template =
     ''\<newline>'' @
     ''                Consider this prompt: "{prompt}"\<newline>'' @
     ''                \<newline>'' @
     ''                Enhance this prompt to be more effective by:\<newline>'' @
     ''                1. Adding relevant context or specificity\<newline>'' @
     ''                2. Clarifying any ambiguous aspects\<newline>'' @
     ''                3. Structuring multi-part requests logically\<newline>'' @
     ''                4. Adding appropriate constraints or guidance\<newline>'' @
     ''                5. Preserving the original intent while improving clarity\<newline>'' @
     ''                \<newline>'' @
     ''                Return ONLY the enhanced prompt without explanations or preamble.\<newline>'' @
     ''                ''\<rparr>\<close>

definition default_rules :: "string \<rightharpoonup> py_value" where
  "default_rules =
     [''coding'' \<mapsto> rule_dict coding_rule, ''creative'' \<mapsto> rule_dict creative_rule,
      ''analytical'' \<mapsto> rule_dict analytical_rule, ''default'' \<mapsto> rule_dict default_rule]"

section \<open>Providers and the outside world\<close>

text \<open>
  The three connectors differ in the environment variable that supplies a missing key and
  in the name their log message carries; what they send over the network is outside this
  theory. A connector object is its class, the key and model it was built with, and its
  identity \<open>ident\<close> (Python's \<open>id(provider)\<close>).
\<close>

datatype provider_class = OpenAIConnector | AnthropicConnector | HuggingFaceConnector

record LLMProvider =
  provider_class :: provider_class
  api_key :: py_value
  model :: "string option"
  ident :: nat

type_synonym call = "LLMProvider \<times> string \<times> options"

type_synonym timestamp = nat

datatype rules_source =
    FileNotFoundError
  | JSONDecodeError
  | Loaded "string \<rightharpoonup> py_value"
  | Raises py_exception

text \<open>
  What the program reads from outside: \<open>llm\<close> is the answer of the remote model to a call,
  given the calls made before it (an answer text, or the exception the request raises);
  \<open>time_time\<close> is the clock reading \<open>time.time()\<close>, which is only stored;
  \<open>format_other\<close> is the part of \<open>str.format\<close> left uninterpreted above;
  \<open>getenv\<close> is \<open>os.getenv\<close>; \<open>enhancement_rules_json\<close> is the outcome of the three
  statements \<open>open\<close>, \<open>json.load\<close> and \<open>self.enhancement_rules.update(custom_rules)\<close>:
  \<open>FileNotFoundError\<close> and \<open>JSONDecodeError\<close> are the two exceptions the source
  catches; \<open>Loaded m\<close> is a content that \<open>update\<close> accepts, \<open>m\<close> being the entries it
  stores under string keys (for a JSON object, its members, whatever their values are);
  \<open>Raises e\<close> is any other exception of the three statements (a file that cannot be
  read or decoded, a content that \<open>update\<close> rejects), which is not caught.
\<close>

record environment =
  llm :: "call list \<Rightarrow> call \<Rightarrow> py_exception + string"
  time_time :: timestamp
  format_other :: "string \<Rightarrow> string \<Rightarrow> py_exception + string"
  getenv :: "string \<rightharpoonup> string"
  enhancement_rules_json :: rules_source

text \<open>What the program does to the outside: the calls sent to providers and the log.\<close>

record world =
  calls :: "call list"
  logged :: "log_record list"

definition log_to :: "log_level \<Rightarrow> string \<Rightarrow> world \<Rightarrow> world" where
  "log_to level msg w = w\<lparr>logged := logged w @ [(level, msg)]\<rparr>"

fun provider_label :: "provider_class \<Rightarrow> string" where
  "provider_label OpenAIConnector = ''OpenAI''"
| "provider_label AnthropicConnector = ''Anthropic''"
| "provider_label HuggingFaceConnector = ''Hugging Face''"

fun api_key_variable :: "provider_class \<Rightarrow> string" where
  "api_key_variable OpenAIConnector = ''OPENAI_API_KEY''"
| "api_key_variable AnthropicConnector = ''ANTHROPIC_API_KEY''"
| "api_key_variable HuggingFaceConnector = ''HUGGINGFACE_API_KEY''"

text \<open>
  The connectors' \<open>__init__\<close>: \<open>self.api_key = api_key or os.getenv(...)\<close>, and a
  \<open>ValueError\<close> when that is empty.
\<close>

definition new_connector ::
  "environment \<Rightarrow> provider_class \<Rightarrow> py_value \<Rightarrow> string option \<Rightarrow> nat \<Rightarrow> py_exception + LLMProvider"
where
  "new_connector env cls key mdl i =
     (let k = (if truthy key then key
               else (case getenv env (api_key_variable cls) of
                       None \<Rightarrow> PyNone | Some s \<Rightarrow> PyStr s))
      in if \<not> truthy k then Inl (ValueError (provider_label cls @ '' API key is required''))
         else Inr \<lparr>provider_class = cls, api_key = k, model = mdl, ident = i\<rparr>)"

text \<open>
  \<open>generate_response\<close>: one request to the remote model. The exchange is recorded in
  \<open>calls\<close>; a failure is logged by the connector and raised again.
\<close>

definition generate_response ::
  "environment \<Rightarrow> LLMProvider \<Rightarrow> string \<Rightarrow> options \<Rightarrow> world \<Rightarrow> (py_exception + string) \<times> world"
where
  "generate_response env p text opts w =
     (let w1 = w\<lparr>calls := calls w @ [(p, text, opts)]\<rparr> in
      case llm env (calls w) (p, text, opts) of
        Inr answer \<Rightarrow> (Inr answer, w1)
      | Inl e \<Rightarrow>
          (Inl e,
           log_to ERROR (''Error generating response from '' @ provider_label (provider_class p)
                         @ '': '' @ str_exc e) w1))"


section \<open>The prompt engineer\<close>

record PromptEnhancement =
  original_prompt :: string
  enhanced_prompt :: string
  timestamp :: timestamp
  effectiveness_rating :: "int option"

definition new_PromptEnhancement :: "environment \<Rightarrow> string \<Rightarrow> string \<Rightarrow> PromptEnhancement" where
  "new_PromptEnhancement env original enhanced =
     \<lparr>original_prompt = original, enhanced_prompt = enhanced,
      timestamp = time_time env, effectiveness_rating = None\<rparr>"

record PromptEngineer =
  llm_provider :: LLMProvider
  enhancement_history :: "PromptEnhancement list"
  enhancement_rules :: "string \<rightharpoonup> py_value"

text \<open>
  \<open>load_enhancement_rules\<close>: the built-in rules, updated key by key with the custom rules
  when the file could be read; the two failures caught there leave the built-in rules and
  log a line; any other exception leaves the method, and with it the constructor
  \<open>PromptEngineer.__init__\<close>.
\<close>

definition load_enhancement_rules ::
  "environment \<Rightarrow> world \<Rightarrow> (py_exception + (string \<rightharpoonup> py_value)) \<times> world"
where
  "load_enhancement_rules env w =
     (case enhancement_rules_json env of
        Loaded custom_rules \<Rightarrow> (Inr (default_rules ++ custom_rules), w)
      | FileNotFoundError \<Rightarrow>
          (Inr default_rules,
           log_to INFO ''No custom enhancement rules found or invalid format.'' w)
      | JSONDecodeError \<Rightarrow>
          (Inr default_rules,
           log_to INFO ''No custom enhancement rules found or invalid format.'' w)
      | Raises e \<Rightarrow> (Inl e, w))"

definition new_PromptEngineer ::
  "environment \<Rightarrow> LLMProvider \<Rightarrow> world \<Rightarrow> (py_exception + PromptEngineer) \<times> world"
where
  "new_PromptEngineer env p w =
     (case load_enhancement_rules env w of
        (Inl e, w1) \<Rightarrow> (Inl e, w1)
      | (Inr rules, w1) \<Rightarrow>
          (Inr \<lparr>llm_provider = p, enhancement_history = [], enhancement_rules = rules\<rparr>, w1))"

text \<open>
  \<open>enhance_prompt\<close>. The rule lookup, \<open>enhancement_rule["template"]\<close> and the \<open>format\<close>
  call stand before the \<open>try\<close>: an exception there leaves the method. Inside the \<open>try\<close>,
  \<open>enhancement_rule["system_prompt"]\<close> is read and the model is asked; on an answer a
  record is appended and the answer returned, on an exception of either the error is
  logged and the prompt returned as it came.
\<close>

definition enhance_prompt ::
  "environment \<Rightarrow> string \<Rightarrow> PromptEngineer \<Rightarrow> world \<Rightarrow> (py_exception + string) \<times> PromptEngineer \<times> world"
where
  "enhance_prompt env text eng w =
     (let prompt_type = detect_prompt_type text in
      case enhancement_rules eng prompt_type of
        None \<Rightarrow> (Inl (KeyError prompt_type), eng, w)
      | Some enhancement_rule \<Rightarrow>
          (case getitem enhancement_rule ''template'' of
             Inl e \<Rightarrow> (Inl e, eng, w)
           | Inr tmpl \<Rightarrow>
          (case format_method (format_other env) tmpl text of
             Inl e \<Rightarrow> (Inl e, eng, w)
           | Inr meta_prompt \<Rightarrow>
          (case getitem enhancement_rule ''system_prompt'' of
             Inl e \<Rightarrow>
               (Inr text, eng, log_to ERROR (''Error enhancing prompt: '' @ str_exc e) w)
           | Inr system \<Rightarrow>
               (case generate_response env (llm_provider eng) meta_prompt
                       [(''system_prompt'', system)] w of
                  (Inr enhanced, w1) \<Rightarrow>
                    (Inr enhanced,
                     eng\<lparr>enhancement_history :=
                           enhancement_history eng @ [new_PromptEnhancement env text enhanced]\<rparr>,
                     log_to DEBUG (''Enhanced: '' @ enhanced)
                       (log_to DEBUG (''Original: '' @ text)
                         (log_to INFO (''Enhanced prompt of type '' @ quoted prompt_type) w1)))
                | (Inl e, w1) \<Rightarrow>
                    (Inr text, eng,
                     log_to ERROR (''Error enhancing prompt: '' @ str_exc e) w1))))))"

text \<open>
  \<open>record_effectiveness\<close>: the guard \<open>0 <= index < len(history)\<close>, then the assignment to
  the record at that index; otherwise only a warning.
\<close>

definition record_effectiveness ::
  "int \<Rightarrow> int \<Rightarrow> PromptEngineer \<Rightarrow> world \<Rightarrow> PromptEngineer \<times> world"
where
  "record_effectiveness index r eng w =
     (if 0 \<le> index \<and> index < int (length (enhancement_history eng)) then
        (eng\<lparr>enhancement_history :=
              (enhancement_history eng)
                [nat index := (enhancement_history eng ! nat index)\<lparr>effectiveness_rating := Some r\<rparr>]\<rparr>,
         log_to INFO (''Recorded effectiveness rating '' @ str_int r
                      @ '' for enhancement at index '' @ str_int index) w)
      else (eng, log_to WARNING (''Invalid enhancement index: '' @ str_int index) w))"


section \<open>The middleware\<close>

text \<open>
  The module keeps two dictionaries: the providers by \<open>name_model\<close> key and the prompt
  engineers by the identity of their provider. Both are kept in insertion order.
\<close>

fun dict_store :: "'k \<Rightarrow> 'v \<Rightarrow> ('k \<times> 'v) list \<Rightarrow> ('k \<times> 'v) list" where
  "dict_store k v [] = [(k, v)]"
| "dict_store k v ((k', v') # d) = (if k' = k then (k, v) # d else (k', v') # dict_store k v d)"

record server =
  llm_providers :: "(string \<times> LLMProvider) list"
  prompt_engineers :: "(nat \<times> PromptEngineer) list"

record PromptRequest =
  prompt :: string
  provider :: string
  model :: "string option"
  options :: options
  bypass_enhancement :: bool

record PromptResponse =
  response :: string
  enhancement_index :: "int option"

datatype http_exception = HTTPException nat string

definition provider_key :: "string \<Rightarrow> string option \<Rightarrow> string" where
  "provider_key provider_name mdl =
     provider_name @ ''_'' @ (case mdl of None \<Rightarrow> ''default''
                              | Some m \<Rightarrow> if m = [] then ''default'' else m)"

definition get_or_create_provider ::
  "environment \<Rightarrow> string \<Rightarrow> py_value \<Rightarrow> string option \<Rightarrow> server \<Rightarrow> (py_exception + LLMProvider) \<times> server"
where
  "get_or_create_provider env provider_name key mdl srv =
     (let k = provider_key provider_name mdl in
      case map_of (llm_providers srv) k of
        Some p \<Rightarrow> (Inr p, srv)
      | None \<Rightarrow>
          (let made =
             (if lower provider_name = ''openai'' then
                new_connector env OpenAIConnector key mdl (length (llm_providers srv))
              else if lower provider_name = ''anthropic'' then
                new_connector env AnthropicConnector key mdl (length (llm_providers srv))
              else if lower provider_name = ''huggingface'' then
                new_connector env HuggingFaceConnector key mdl (length (llm_providers srv))
              else Inl (ValueError (''Unsupported provider: '' @ provider_name)))
           in case made of
                Inl e \<Rightarrow> (Inl e, srv)
              | Inr p \<Rightarrow> (Inr p, srv\<lparr>llm_providers := dict_store k p (llm_providers srv)\<rparr>)))"

definition get_or_create_prompt_engineer ::
  "environment \<Rightarrow> LLMProvider \<Rightarrow> server \<Rightarrow> world \<Rightarrow>
     (py_exception + PromptEngineer) \<times> server \<times> world"
where
  "get_or_create_prompt_engineer env p srv w =
     (case map_of (prompt_engineers srv) (ident p) of
        Some eng \<Rightarrow> (Inr eng, srv, w)
      | None \<Rightarrow>
          (case new_PromptEngineer env p w of
             (Inl e, w1) \<Rightarrow> (Inl e, srv, w1)
           | (Inr eng, w1) \<Rightarrow>
               (Inr eng,
                srv\<lparr>prompt_engineers := dict_store (ident p) eng (prompt_engineers srv)\<rparr>, w1)))"

text \<open>
  The body of \<open>process_prompt\<close> once provider and prompt engineer are at hand: the
  enhancement unless bypassed, then the call that produces the answer.
\<close>

definition enhance_and_answer ::
  "environment \<Rightarrow> PromptRequest \<Rightarrow> LLMProvider \<Rightarrow> PromptEngineer \<Rightarrow> world \<Rightarrow>
     (py_exception + PromptResponse) \<times> PromptEngineer \<times> world"
where
  "enhance_and_answer env request p eng w =
     (case (if bypass_enhancement request then (Inr (prompt request, None), eng, w)
            else (case enhance_prompt env (prompt request) eng w of
                    (Inl e, eng1, w1) \<Rightarrow> (Inl e, eng1, w1)
                  | (Inr final_prompt, eng1, w1) \<Rightarrow>
                      (Inr (final_prompt, Some (int (length (enhancement_history eng1)) - 1)),
                       eng1, w1))) of
        (Inl e, eng1, w1) \<Rightarrow> (Inl e, eng1, w1)
      | (Inr (final_prompt, index), eng1, w1) \<Rightarrow>
          (case generate_response env p final_prompt (options request) w1 of
             (Inl e, w2) \<Rightarrow> (Inl e, eng1, w2)
           | (Inr llm_response, w2) \<Rightarrow>
               (Inr \<lparr>response = llm_response, enhancement_index = index\<rparr>, eng1, w2)))"

text \<open>
  The \<open>try\<close> block of \<open>process_prompt\<close>. The prompt engineer is an object shared with the
  dictionary, so its new state is the dictionary's entry afterwards.
\<close>

definition process_prompt_try ::
  "environment \<Rightarrow> PromptRequest \<Rightarrow> server \<Rightarrow> world \<Rightarrow> (py_exception + PromptResponse) \<times> server \<times> world"
where
  "process_prompt_try env request srv w =
     (case get_or_create_provider env (provider request)
             (dict_get (options request) ''api_key'') (model request) srv of
        (Inl e, srv1) \<Rightarrow> (Inl e, srv1, w)
      | (Inr p, srv1) \<Rightarrow>
          (case get_or_create_prompt_engineer env p srv1 w of
             (Inl e, srv2, w1) \<Rightarrow> (Inl e, srv2, w1)
           | (Inr eng, srv2, w1) \<Rightarrow>
               (case enhance_and_answer env request p eng w1 of
                  (result, eng1, w2) \<Rightarrow>
                    (result,
                     srv2\<lparr>prompt_engineers := dict_store (ident p) eng1 (prompt_engineers srv2)\<rparr>,
                     w2))))"

text \<open>
  \<open>process_prompt\<close>: whatever the \<open>try\<close> block raises is logged and turned into an
  \<open>HTTPException\<close> with status 500 and \<open>detail=str(e)\<close>.
\<close>

definition process_prompt ::
  "environment \<Rightarrow> PromptRequest \<Rightarrow> server \<Rightarrow> world \<Rightarrow> (http_exception + PromptResponse) \<times> server \<times> world"
where
  "process_prompt env request srv w =
     (case process_prompt_try env request srv w of
        (Inr resp, srv1, w1) \<Rightarrow> (Inr resp, srv1, w1)
      | (Inl e, srv1, w1) \<Rightarrow>
          (Inl (HTTPException 500 (str_exc e)), srv1,
           log_to ERROR (''Error processing prompt: '' @ str_exc e) w1))"

text \<open>
  \<open>provide_feedback\<close>: the rating is recorded in every prompt engineer, and the answer is
  \<open>{"status": "success"}\<close>.
\<close>

fun record_in_all ::
  "int \<Rightarrow> int \<Rightarrow> (nat \<times> PromptEngineer) list \<Rightarrow> world \<Rightarrow> (nat \<times> PromptEngineer) list \<times> world"
where
  "record_in_all index r [] w = ([], w)"
| "record_in_all index r ((k, eng) # engs) w =
     (case record_effectiveness index r eng w of
        (eng1, w1) \<Rightarrow>
          (case record_in_all index r engs w1 of
             (engs1, w2) \<Rightarrow> ((k, eng1) # engs1, w2)))"

definition provide_feedback ::
  "int \<Rightarrow> int \<Rightarrow> server \<Rightarrow> world \<Rightarrow> (http_exception + (string \<times> string) list) \<times> server \<times> world"
where
  "provide_feedback index r srv w =
     (case record_in_all index r (prompt_engineers srv) w of
        (engs, w1) \<Rightarrow> (Inr [(''status'', ''success'')], srv\<lparr>prompt_engineers := engs\<rparr>, w1))"


section \<open>Scenarios\<close>

text \<open>
  Concrete surroundings for the examples below: a remote model that always answers with
  the same text or always fails, an environment without API keys in the process
  environment, an OpenAI connector, and the prompt engineer that the constructor builds
  (where it raises, \<open>scenario_engineer\<close> is a prompt engineer without rules).
\<close>

definition llm_answers :: "string \<Rightarrow> call list \<Rightarrow> call \<Rightarrow> py_exception + string" where
  "llm_answers answer earlier c = Inr answer"

definition llm_fails :: "py_exception \<Rightarrow> call list \<Rightarrow> call \<Rightarrow> py_exception + string" where
  "llm_fails e earlier c = Inl e"

definition scenario_env ::
  "(call list \<Rightarrow> call \<Rightarrow> py_exception + string) \<Rightarrow> rules_source \<Rightarrow> environment" where
  "scenario_env remote rules =
     \<lparr>llm = remote, time_time = 1700000000,
      format_other = (\<lambda>rest text. Inl (ValueError ''unsupported replacement field'')),
      getenv = Map.empty, enhancement_rules_json = rules\<rparr>"

definition scenario_provider :: LLMProvider where
  "scenario_provider =
     \<lparr>provider_class = OpenAIConnector, api_key = PyStr ''sk-test'', LLMProvider.model = None,
      ident = 0\<rparr>"

definition empty_world :: world where
  "empty_world = \<lparr>calls = [], logged = []\<rparr>"

definition scenario_engineer :: "environment \<Rightarrow> PromptEngineer" where
  "scenario_engineer env =
     (case fst (new_PromptEngineer env scenario_provider empty_world) of
        Inr eng \<Rightarrow> eng
      | Inl e \<Rightarrow>
          \<lparr>llm_provider = scenario_provider, enhancement_history = [],
           enhancement_rules = Map.empty\<rparr>)"

definition custom_coding_rule :: EnhancementRule where
  "custom_coding_rule = \<lparr>system_prompt = ''You review code.'', template = ''Review: {prompt}''\<rparr>"

definition engineer_with_one_record :: PromptEngineer where
  "engineer_with_one_record =
     \<lparr>llm_provider = scenario_provider,
      enhancement_history =
        [\<lparr>original_prompt = ''debug this function'', enhanced_prompt = ''Fixed prompt text'',
          timestamp = 1700000000, effectiveness_rating = None\<rparr>],
      enhancement_rules = default_rules\<rparr>"

definition failing_env :: environment where
  "failing_env = scenario_env (llm_fails (PyException ''ConnectionError'' ''connection refused''))
     FileNotFoundError"

definition braces_rule :: EnhancementRule where
  "braces_rule = \<lparr>system_prompt = ''You improve prompts.'', template = ''Improve {x}''\<rparr>"

definition overlay_env :: environment where
  "overlay_env =
     scenario_env (llm_answers ''Better prompt'') (Loaded [''default'' \<mapsto> rule_dict braces_rule])"

text \<open>
  For the middleware: a remote model whose first call fails and whose later calls answer, a
  server that has served nothing yet, and a request for \<open>hello\<close> to OpenAI carrying its
  API key.
\<close>

definition llm_fails_first ::
  "py_exception \<Rightarrow> string \<Rightarrow> call list \<Rightarrow> call \<Rightarrow> py_exception + string" where
  "llm_fails_first e answer earlier c = (if earlier = [] then Inl e else Inr answer)"

definition empty_server :: server where
  "empty_server = \<lparr>llm_providers = [], prompt_engineers = []\<rparr>"

definition hello_request :: "bool \<Rightarrow> PromptRequest" where
  "hello_request bypass =
     \<lparr>prompt = ''hello'', provider = ''openai'', model = None,
      options = [(''api_key'', PyStr ''sk-test'')], bypass_enhancement = bypass\<rparr>"

definition recovering_env :: environment where
  "recovering_env =
     scenario_env (llm_fails_first (PyException ''Timeout'' ''timed out'') ''Hi there'')
       FileNotFoundError"

text \<open>
  A server that holds one prompt engineer with one record in its history; a bypassed
  request that names a provider the middleware does not know; and an environment whose
  rules file exists but cannot be read.
\<close>

definition one_record_server :: server where
  "one_record_server =
     \<lparr>llm_providers = [(''openai_default'', scenario_provider)],
      prompt_engineers = [(0, engineer_with_one_record)]\<rparr>"

definition unsupported_request :: PromptRequest where
  "unsupported_request =
     \<lparr>prompt = ''hello'', provider = ''foo'', model = None, options = [],
      bypass_enhancement = True\<rparr>"

definition unreadable_env :: environment where
  "unreadable_env =
     scenario_env (llm_answers ''Hi there'')
       (Raises (PyException ''PermissionError''
          (''[Errno 13] Permission denied: '' @ quoted ''enhancement_rules.json'')))"


section \<open>Substrings and lower-casing\<close>

lemma str_contains_iff: "str_contains s t \<longleftrightarrow> (\<exists>u v. s = u @ t @ v)"
proof (induction s)
  case Nil
  then show ?case by auto
next
  case (Cons c s)
  have split_front:
    "(\<exists>u v. c # s = u @ t @ v) \<longleftrightarrow> (\<exists>v. c # s = t @ v) \<or> (\<exists>u v. s = u @ t @ v)"
  proof
    assume "\<exists>u v. c # s = u @ t @ v"
    then obtain u v where uv: "c # s = u @ t @ v" by blast
    show "(\<exists>v. c # s = t @ v) \<or> (\<exists>u v. s = u @ t @ v)"
    proof (cases u)
      case Nil
      with uv show ?thesis by auto
    next
      case (Cons a u')
      with uv have "s = u' @ t @ v" by simp
      then show ?thesis by blast
    qed
  next
    assume "(\<exists>v. c # s = t @ v) \<or> (\<exists>u v. s = u @ t @ v)"
    then show "\<exists>u v. c # s = u @ t @ v"
    proof
      assume "\<exists>v. c # s = t @ v"
      then obtain v where "c # s = [] @ t @ v" by auto
      then show ?thesis by blast
    next
      assume "\<exists>u v. s = u @ t @ v"
      then obtain u v where "c # s = (c # u) @ t @ v" by auto
      then show ?thesis by blast
    qed
  qed
  have at_front: "(take (length t) (c # s) = t) \<longleftrightarrow> (\<exists>v. c # s = t @ v)"
    by (metis append_eq_conv_conj)
  show ?case using Cons.IH split_front at_front by simp
qed

lemma any_term_in_iff:
  "any_term_in terms s \<longleftrightarrow> (\<exists>t \<in> set terms. \<exists>u v. s = u @ t @ v)"
  by (simp add: any_term_in_def list_ex_iff str_contains_iff)

lemma lower_append: "lower (u @ v) = lower u @ lower v"
  by (simp add: lower_def)

lemma lower_terms_fixed:
  "t \<in> set coding_terms \<union> set creative_terms \<union> set analytical_terms \<Longrightarrow> lower t = t"
  by (auto simp: coding_terms_def creative_terms_def analytical_terms_def lower_def
      lower_char_def ascii_uppercase_def ascii_lowercase_def)

lemma str_contains_lower:
  assumes "str_contains p t" and "lower t = t"
  shows "str_contains (lower p) t"
proof -
  from assms(1) obtain u v where "p = u @ t @ v"
    by (auto simp: str_contains_iff)
  then have "lower p = lower u @ t @ lower v"
    by (simp add: lower_append assms(2))
  then show ?thesis
    by (auto simp: str_contains_iff)
qed


lemma lower_char_other: "c \<notin> set ascii_uppercase \<Longrightarrow> lower_char c = c"
proof -
  assume "c \<notin> set ascii_uppercase"
  moreover have "length ascii_uppercase = length ascii_lowercase"
    by (simp add: ascii_uppercase_def ascii_lowercase_def)
  ultimately have "map_of (zip ascii_uppercase ascii_lowercase) c = None"
    by (simp add: map_of_zip_is_None)
  then show ?thesis by (simp add: lower_char_def)
qed

lemma lower_capitals:
  "lower ''ABCDEFGHIJKLMNOPQRSTUVWXYZ'' = ''abcdefghijklmnopqrstuvwxyz''"
  by (simp add: lower_def lower_char_def ascii_uppercase_def ascii_lowercase_def)

lemma lower_no_capitals:
  "\<forall>c \<in> set p. c \<notin> set ''ABCDEFGHIJKLMNOPQRSTUVWXYZ'' \<Longrightarrow> lower p = p"
  unfolding lower_def
  by (rule map_idI) (simp add: lower_char_other ascii_uppercase_def)

lemma str_contains_lowered:
  assumes "str_contains p q"
  shows "str_contains (lower p) (lower q)"
proof -
  from assms obtain u v where "p = u @ q @ v"
    by (auto simp: str_contains_iff)
  then have "lower p = lower u @ lower q @ lower v"
    by (simp add: lower_append)
  then show ?thesis
    by (auto simp: str_contains_iff)
qed


section \<open>Category detection: priority order\<close>

text \<open>
  Claim C4. Detection lower-cases the prompt: in ASCII text the capitals \<open>A\<close> to \<open>Z\<close>
  become \<open>a\<close> to \<open>z\<close>, character by character, and nothing else changes (so text
  without capitals is left as it is). It then looks for the keywords
  of each category as substrings of the lower-cased prompt, coding first, then creative,
  then analytical; the first category with a keyword is the answer, and \<open>default\<close> when
  there is none. A prompt that contains a coding keyword, in whatever capitalisation, is
  classified as coding, whatever creative keyword it contains as well.
\<close>

theorem detect_prompt_type_priority:
  "detect_prompt_type p =
     (if \<exists>t \<in> set coding_terms. \<exists>u v. lower p = u @ t @ v then ''coding''
      else if \<exists>t \<in> set creative_terms. \<exists>u v. lower p = u @ t @ v then ''creative''
      else if \<exists>t \<in> set analytical_terms. \<exists>u v. lower p = u @ t @ v then ''analytical''
      else ''default'')
   \<and> lower ''ABCDEFGHIJKLMNOPQRSTUVWXYZ'' = ''abcdefghijklmnopqrstuvwxyz''
   \<and> ((\<forall>c \<in> set p. of_char c < (128::nat) \<and> c \<notin> set ''ABCDEFGHIJKLMNOPQRSTUVWXYZ'')
        \<longrightarrow> lower p = p)
   \<and> ((\<forall>c \<in> set (p @ p'). of_char c < (128::nat))
        \<longrightarrow> lower (p @ p') = lower p @ lower p' \<and> length (lower p) = length p)
   \<and> (\<forall>k \<in> set coding_terms. \<forall>c \<in> set creative_terms.
        str_contains p k \<and> str_contains p c \<longrightarrow> detect_prompt_type p = ''coding'')
   \<and> (\<forall>k \<in> set coding_terms. \<forall>c \<in> set creative_terms.
        str_contains (lower p) k \<and> str_contains (lower p) c \<longrightarrow>
        detect_prompt_type p = ''coding'')
   \<and> (\<forall>k \<in> set coding_terms. \<forall>q. lower q = k \<and> str_contains p q \<longrightarrow>
        detect_prompt_type p = ''coding'')"
proof -
  have cascade: "detect_prompt_type p =
     (if \<exists>t \<in> set coding_terms. \<exists>u v. lower p = u @ t @ v then ''coding''
      else if \<exists>t \<in> set creative_terms. \<exists>u v. lower p = u @ t @ v then ''creative''
      else if \<exists>t \<in> set analytical_terms. \<exists>u v. lower p = u @ t @ v then ''analytical''
      else ''default'')"
    by (simp add: detect_prompt_type_def Let_def any_term_in_iff)
  have coding: "detect_prompt_type p = ''coding''"
    if "k \<in> set coding_terms" and "str_contains (lower p) k" for k
  proof -
    from that have "any_term_in coding_terms (lower p)"
      by (auto simp: any_term_in_iff str_contains_iff)
    then show ?thesis by (simp add: detect_prompt_type_def Let_def)
  qed
  have raw: "detect_prompt_type p = ''coding''"
    if "k \<in> set coding_terms" and "str_contains p k" for k
  proof -
    from that(1) have "lower k = k" by (simp add: lower_terms_fixed)
    with that(2) have "str_contains (lower p) k" by (simp add: str_contains_lower)
    with that(1) show ?thesis by (rule coding)
  qed
  have any_case: "detect_prompt_type p = ''coding''"
    if "k \<in> set coding_terms" and "lower q = k" and "str_contains p q" for k q
  proof -
    from that(3) have "str_contains (lower p) (lower q)" by (rule str_contains_lowered)
    with that(1,2) show ?thesis by (simp add: coding)
  qed
  have pointwise: "length (lower p) = length p"
    by (simp add: lower_def)
  have unchanged: "lower p = p"
    if "\<forall>c \<in> set p. of_char c < (128::nat) \<and> c \<notin> set ''ABCDEFGHIJKLMNOPQRSTUVWXYZ''"
    using that by (intro lower_no_capitals) blast
  show ?thesis
    using cascade lower_capitals unchanged lower_append [of p p'] pointwise
      raw coding any_case
    by blast
qed

theorem detect_prompt_type_priority_witness:
  "''debug'' \<in> set coding_terms \<and> ''story'' \<in> set creative_terms
   \<and> lower ''DEBUG'' = ''debug''
   \<and> lower ''Write a Story, then DEBUG it'' = ''write a story, then debug it''
   \<and> str_contains ''Write a Story, then DEBUG it'' ''DEBUG''
   \<and> str_contains (lower ''Write a Story, then DEBUG it'') ''story''
   \<and> str_contains (lower ''Write a Story, then DEBUG it'') ''debug''
   \<and> detect_prompt_type ''Write a Story, then DEBUG it'' = ''coding''"
proof -
  have k: "''debug'' \<in> set coding_terms" by (simp add: coding_terms_def)
  have c: "''story'' \<in> set creative_terms" by (simp add: creative_terms_def)
  have q: "lower ''DEBUG'' = ''debug''"
    by (simp add: lower_def lower_char_def ascii_uppercase_def ascii_lowercase_def)
  have h: "str_contains ''Write a Story, then DEBUG it'' ''DEBUG''"
    by simp
  have l: "lower ''Write a Story, then DEBUG it'' = ''write a story, then debug it''"
    by (simp add: lower_def lower_char_def ascii_uppercase_def ascii_lowercase_def)
  have m: "str_contains (lower ''Write a Story, then DEBUG it'') ''story''
      \<and> str_contains (lower ''Write a Story, then DEBUG it'') ''debug''"
    unfolding l by simp
  from detect_prompt_type_priority [of "''Write a Story, then DEBUG it''" "[]"]
  have "\<forall>k \<in> set coding_terms. \<forall>q. lower q = k
          \<and> str_contains ''Write a Story, then DEBUG it'' q
        \<longrightarrow> detect_prompt_type ''Write a Story, then DEBUG it'' = ''coding''"
    by (elim conjE)
  with k c q h l m show ?thesis by blast
qed


section \<open>Formatting the built-in templates\<close>

lemma str_format_plain:
  "CHR ''{'' \<notin> set s \<Longrightarrow> CHR ''}'' \<notin> set s \<Longrightarrow> str_format other s p = Inr s"
  by (induction s) (auto simp: str_format.simps emit_def)

lemma plain_field_prompt:
  "plain_field (CHR ''p'' # CHR ''r'' # CHR ''o'' # CHR ''m'' # CHR ''p'' # CHR ''t'' # CHR ''}'' # post)
     = Some (''prompt'', post)"
  by (simp add: plain_field_def ident_char_def digit_char_def ascii_uppercase_def
      ascii_lowercase_def)

lemma str_format_field:
  assumes "CHR ''{'' \<notin> set post" and "CHR ''}'' \<notin> set post"
  shows "str_format other (''{prompt}'' @ post) p = Inr (p @ post)"
proof -
  have "str_format other (CHR ''{'' # (''prompt}'' @ post)) p
      = emit p (str_format other post p)"
    by (subst str_format.simps) (simp add: plain_field_prompt)
  then show ?thesis using assms by (simp add: str_format_plain emit_def)
qed

lemma str_format_single_field:
  assumes "CHR ''{'' \<notin> set pre" and "CHR ''}'' \<notin> set pre"
    and "CHR ''{'' \<notin> set post" and "CHR ''}'' \<notin> set post"
  shows "str_format other (pre @ ''{prompt}'' @ post) p = Inr (pre @ p @ post)"
  using assms(1,2)
proof (induction pre)
  case Nil
  show ?case using str_format_field [OF assms(3,4)] by simp
next
  case (Cons c pre)
  then have "str_format other (pre @ ''{prompt}'' @ post) p = Inr (pre @ p @ post)" by simp
  moreover have "c \<noteq> CHR ''{''" "c \<noteq> CHR ''}''" using Cons.prems by auto
  ultimately show ?case
    by (simp add: str_format.simps(2) [of other c] emit_def)
qed

lemma before_field_no_open: "CHR ''{'' \<notin> set (before_field t)"
  by (auto simp: before_field_def dest: set_takeWhileD)

lemma single_prompt_field_format:
  assumes "single_prompt_field t"
  shows "str_format other t p = Inr (before_field t @ p @ after_field t)"
proof -
  have "str_format other (before_field t @ ''{prompt}'' @ after_field t) p
      = Inr (before_field t @ p @ after_field t)"
    using assms by (intro str_format_single_field before_field_no_open)
      (simp_all add: single_prompt_field_def)
  moreover have "t = before_field t @ ''{prompt}'' @ after_field t"
    using assms by (simp add: single_prompt_field_def)
  ultimately show ?thesis by simp
qed

lemma coding_rule_field: "single_prompt_field (template coding_rule)"
  by (simp add: single_prompt_field_def before_field_def after_field_def coding_rule_def)

lemma creative_rule_field: "single_prompt_field (template creative_rule)"
  by (simp add: single_prompt_field_def before_field_def after_field_def creative_rule_def)

lemma analytical_rule_field: "single_prompt_field (template analytical_rule)"
  by (simp add: single_prompt_field_def before_field_def after_field_def analytical_rule_def)

lemma default_rule_field: "single_prompt_field (template default_rule)"
  by (simp add: single_prompt_field_def before_field_def after_field_def default_rule_def)


section \<open>The rule set\<close>

lemma default_rules_lookup:
  "default_rules ''coding'' = Some (rule_dict coding_rule)"
  "default_rules ''creative'' = Some (rule_dict creative_rule)"
  "default_rules ''analytical'' = Some (rule_dict analytical_rule)"
  "default_rules ''default'' = Some (rule_dict default_rule)"
  by (simp_all add: default_rules_def)

lemma dom_default_rules:
  "dom default_rules = {''coding'', ''creative'', ''analytical'', ''default''}"
  by (auto simp: default_rules_def)

lemma detect_prompt_type_range:
  "detect_prompt_type p \<in> {''coding'', ''creative'', ''analytical'', ''default''}"
  by (simp add: detect_prompt_type_def Let_def)

lemma default_rules_single_field:
  "default_rules c = Some v \<Longrightarrow> \<exists>r. v = rule_dict r \<and> single_prompt_field (template r)"
  by (auto simp: default_rules_def coding_rule_field creative_rule_field
      analytical_rule_field default_rule_field split: if_splits)

lemma getitem_rule_dict:
  "getitem (rule_dict r) ''template'' = Inr (PyStr (template r))"
  "getitem (rule_dict r) ''system_prompt'' = Inr (PyStr (system_prompt r))"
  by (simp_all add: rule_dict_def)

lemma loaded_rules_cases:
  "fst (load_enhancement_rules env w) =
     (case enhancement_rules_json env of
        Loaded custom \<Rightarrow> Inr (default_rules ++ custom)
      | Raises e \<Rightarrow> Inl e
      | _ \<Rightarrow> Inr default_rules)"
  by (simp add: load_enhancement_rules_def split: rules_source.splits)

lemma scenario_env_sel:
  "llm (scenario_env remote rules) = remote"
  "time_time (scenario_env remote rules) = 1700000000"
  "getenv (scenario_env remote rules) = Map.empty"
  "enhancement_rules_json (scenario_env remote rules) = rules"
  by (simp_all add: scenario_env_def)

lemma scenario_engineer_plain:
  "scenario_engineer (scenario_env remote FileNotFoundError)
     = \<lparr>llm_provider = scenario_provider, enhancement_history = [],
        enhancement_rules = default_rules\<rparr>"
  by (simp add: scenario_engineer_def new_PromptEngineer_def load_enhancement_rules_def
      scenario_env_def)

lemmas detect_eval = detect_prompt_type_def any_term_in_def coding_terms_def creative_terms_def
  analytical_terms_def lower_def lower_char_def ascii_uppercase_def ascii_lowercase_def

lemma detect_debug: "detect_prompt_type ''debug this function'' = ''coding''"
  by (simp add: detect_eval)

lemma detect_hello: "detect_prompt_type ''hello'' = ''default''"
  by (simp add: detect_eval)

text \<open>
  Claim C8. When the custom rules could be loaded, the rule set is built from the four
  built-in rules by overwriting whole categories: loading succeeds and logs nothing, a
  lookup at a category of the custom mapping returns the custom entry, a lookup at any
  other category returns what the built-in rules return there; the constructor succeeds
  and the prompt engineer it returns has that rule set, the given provider and an empty
  history.
\<close>

theorem load_enhancement_rules_overlay:
  assumes "enhancement_rules_json env = Loaded custom_rules"
  shows "(\<exists>rules. load_enhancement_rules env w = (Inr rules, w)
            \<and> (\<forall>c r. custom_rules c = Some r \<longrightarrow> rules c = Some r)
            \<and> (\<forall>c. custom_rules c = None \<longrightarrow> rules c = default_rules c)
            \<and> new_PromptEngineer env p w =
                (Inr \<lparr>llm_provider = p, enhancement_history = [], enhancement_rules = rules\<rparr>, w))"
  using assms
  by (simp add: load_enhancement_rules_def new_PromptEngineer_def map_add_def)

theorem load_enhancement_rules_overlay_witness:
  "enhancement_rules_json
     (scenario_env (llm_answers ''ok'') (Loaded [''coding'' \<mapsto> rule_dict custom_coding_rule]))
     = Loaded [''coding'' \<mapsto> rule_dict custom_coding_rule]
   \<and> (\<exists>rules.
        fst (load_enhancement_rules
          (scenario_env (llm_answers ''ok'') (Loaded [''coding'' \<mapsto> rule_dict custom_coding_rule]))
          empty_world) = Inr rules
      \<and> rules ''coding'' = Some (rule_dict custom_coding_rule)
      \<and> rules ''creative'' = Some (rule_dict creative_rule))"
proof -
  let ?custom = "[''coding'' \<mapsto> rule_dict custom_coding_rule]"
  let ?env = "scenario_env (llm_answers ''ok'') (Loaded ?custom)"
  have src: "enhancement_rules_json ?env = Loaded ?custom"
    by (simp add: scenario_env_def)
  from load_enhancement_rules_overlay [OF src, of empty_world scenario_provider]
  obtain rules where load: "load_enhancement_rules ?env empty_world = (Inr rules, empty_world)"
    and custom: "\<forall>c r. ?custom c = Some r \<longrightarrow> rules c = Some r"
    and builtin: "\<forall>c. ?custom c = None \<longrightarrow> rules c = default_rules c"
    by blast
  from custom have "rules ''coding'' = Some (rule_dict custom_coding_rule)"
    by simp
  moreover from builtin have "rules ''creative'' = default_rules ''creative''"
    by simp
  ultimately show ?thesis
    using src load by (simp add: default_rules_lookup)
qed


section \<open>Feedback on an enhancement\<close>

lemma record_effectiveness_engineer:
  "fst (record_effectiveness i r eng w) = fst (record_effectiveness i r eng w')"
  by (simp add: record_effectiveness_def)

lemma record_effectiveness_world:
  "snd (record_effectiveness i r eng w) =
     w\<lparr>logged := logged w @
         [if 0 \<le> i \<and> i < int (length (enhancement_history eng))
          then (INFO, ''Recorded effectiveness rating '' @ str_int r
                      @ '' for enhancement at index '' @ str_int i)
          else (WARNING, ''Invalid enhancement index: '' @ str_int i)]\<rparr>"
  by (simp add: record_effectiveness_def log_to_def)

lemma record_effectiveness_in_range:
  assumes "0 \<le> i" and "i < int (length (enhancement_history eng))"
  shows "fst (record_effectiveness i r eng w)
     = eng\<lparr>enhancement_history := (enhancement_history eng)
            [nat i := (enhancement_history eng ! nat i)\<lparr>effectiveness_rating := Some r\<rparr>]\<rparr>"
  using assms by (simp add: record_effectiveness_def)

lemma record_effectiveness_out_of_range:
  assumes "\<not> (0 \<le> i \<and> i < int (length (enhancement_history eng)))"
  shows "fst (record_effectiveness i r eng w) = eng"
  using assms by (simp only: record_effectiveness_def if_False fst_conv)

lemma record_in_all_result:
  "record_in_all i r engs w =
     (map (\<lambda>(k, eng). (k, fst (record_effectiveness i r eng w0))) engs,
      w\<lparr>logged := logged w @
          map (\<lambda>(k, eng).
                 if 0 \<le> i \<and> i < int (length (enhancement_history eng))
                 then (INFO, ''Recorded effectiveness rating '' @ str_int r
                             @ '' for enhancement at index '' @ str_int i)
                 else (WARNING, ''Invalid enhancement index: '' @ str_int i)) engs\<rparr>)"
proof (induction engs arbitrary: w)
  case Nil
  show ?case by simp
next
  case (Cons a engs)
  obtain k eng where a: "a = (k, eng)" by (cases a)
  obtain eng1 w1 where step: "record_effectiveness i r eng w = (eng1, w1)"
    by (cases "record_effectiveness i r eng w")
  have eng1: "eng1 = fst (record_effectiveness i r eng w0)"
    using step record_effectiveness_engineer [of i r eng w w0] by simp
  have w1: "w1 = w\<lparr>logged := logged w @
         [if 0 \<le> i \<and> i < int (length (enhancement_history eng))
          then (INFO, ''Recorded effectiveness rating '' @ str_int r
                      @ '' for enhancement at index '' @ str_int i)
          else (WARNING, ''Invalid enhancement index: '' @ str_int i)]\<rparr>"
    using step record_effectiveness_world [of i r eng w] by simp
  have "record_in_all i r (a # engs) w =
      (case record_in_all i r engs w1 of (engs1, w2) \<Rightarrow> ((k, eng1) # engs1, w2))"
    by (simp add: a step)
  also have "\<dots> =
      ((k, eng1) # map (\<lambda>(k, eng). (k, fst (record_effectiveness i r eng w0))) engs,
       w1\<lparr>logged := logged w1 @
          map (\<lambda>(k, eng).
                 if 0 \<le> i \<and> i < int (length (enhancement_history eng))
                 then (INFO, ''Recorded effectiveness rating '' @ str_int r
                             @ '' for enhancement at index '' @ str_int i)
                 else (WARNING, ''Invalid enhancement index: '' @ str_int i)) engs\<rparr>)"
    by (simp only: Cons.IH [of w1] prod.case)
  finally show ?case
    by (simp add: a eng1 w1)
qed

lemma provide_feedback_status:
  "fst (provide_feedback index r srv w) = Inr [(''status'', ''success'')]"
  by (simp add: provide_feedback_def split: prod.splits)

lemma one_record_server_feedback:
  "provide_feedback i r one_record_server empty_world =
     (Inr [(''status'', ''success'')],
      one_record_server\<lparr>prompt_engineers :=
        [(0, fst (record_effectiveness i r engineer_with_one_record empty_world))]\<rparr>,
      snd (record_effectiveness i r engineer_with_one_record empty_world))"
  by (simp add: provide_feedback_def one_record_server_def split: prod.splits)

lemma str_int_digits: "str_int 0 = ''0''" "str_int 5 = ''5''" "str_int 99 = ''99''"
  by (simp_all add: str_int_def str_nat.simps)

text \<open>
  Claim C3 as stated has the outcome reported: success for an index in range, a
  not-found condition for any other. \<open>record_effectiveness\<close> returns nothing in either
  case, and \<open>provide_feedback\<close> answers \<open>{"status": "success"}\<close> whatever happened: on a
  server whose one prompt engineer has a history of length 1, the feedback for index 99
  gets the answer that the feedback for index 0 gets, while the history stays as it was;
  the invalid index appears in the log only.
\<close>

theorem provide_feedback_out_of_range_reports_success:
  "prompt_engineers one_record_server = [(0, engineer_with_one_record)]
   \<and> length (enhancement_history engineer_with_one_record) = 1
   \<and> fst (provide_feedback 99 5 one_record_server empty_world) = Inr [(''status'', ''success'')]
   \<and> fst (provide_feedback 99 5 one_record_server empty_world)
       = fst (provide_feedback 0 5 one_record_server empty_world)
   \<and> prompt_engineers (fst (snd (provide_feedback 99 5 one_record_server empty_world)))
       = prompt_engineers one_record_server
   \<and> logged (snd (snd (provide_feedback 99 5 one_record_server empty_world)))
       = [(WARNING, ''Invalid enhancement index: 99'')]"
proof -
  have out: "\<not> (0 \<le> (99::int) \<and> 99 < int (length (enhancement_history engineer_with_one_record)))"
    by (simp add: engineer_with_one_record_def)
  have "fst (record_effectiveness 99 5 engineer_with_one_record empty_world)
      = engineer_with_one_record"
    using out by (rule record_effectiveness_out_of_range)
  moreover have "logged (snd (record_effectiveness 99 5 engineer_with_one_record empty_world))
      = [(WARNING, ''Invalid enhancement index: 99'')]"
    using out by (simp add: record_effectiveness_world str_int_digits empty_world_def)
  ultimately show ?thesis
    by (simp add: one_record_server_feedback)
      (simp add: one_record_server_def engineer_with_one_record_def)
qed

text \<open>
  Claim C3, amended. \<open>record_effectiveness index rating\<close> on a history of length \<open>N\<close>: for
  \<open>0 \<le> index < N\<close> the rating of the record at \<open>index\<close> becomes \<open>rating\<close>, whatever
  integer that is, and an \<open>INFO\<close> line is logged; for any other index the prompt engineer
  is left as it was and a \<open>WARNING\<close> line with the invalid index is logged. Nothing is
  returned and no provider is called. \<open>provide_feedback\<close> does this in every prompt
  engineer of the server, in their order, and answers \<open>{"status": "success"}\<close> for every
  index and rating: which of the two cases occurred can be read from the log and from the
  histories, not from the answer.
\<close>

theorem record_effectiveness_cases:
  "(0 \<le> i \<and> i < int (length (enhancement_history eng)) \<longrightarrow>
      enhancement_history (fst (record_effectiveness i r eng w))
        = (enhancement_history eng)
            [nat i := (enhancement_history eng ! nat i)\<lparr>effectiveness_rating := Some r\<rparr>]
      \<and> effectiveness_rating (enhancement_history (fst (record_effectiveness i r eng w)) ! nat i)
        = Some r
      \<and> logged (snd (record_effectiveness i r eng w))
        = logged w @ [(INFO, ''Recorded effectiveness rating '' @ str_int r
                             @ '' for enhancement at index '' @ str_int i)])
   \<and> (\<not> (0 \<le> i \<and> i < int (length (enhancement_history eng))) \<longrightarrow>
      fst (record_effectiveness i r eng w) = eng
      \<and> logged (snd (record_effectiveness i r eng w))
        = logged w @ [(WARNING, ''Invalid enhancement index: '' @ str_int i)])
   \<and> calls (snd (record_effectiveness i r eng w)) = calls w
   \<and> fst (provide_feedback i r srv w) = Inr [(''status'', ''success'')]
   \<and> llm_providers (fst (snd (provide_feedback i r srv w))) = llm_providers srv
   \<and> prompt_engineers (fst (snd (provide_feedback i r srv w)))
       = map (\<lambda>(k, eng). (k, fst (record_effectiveness i r eng w))) (prompt_engineers srv)
   \<and> logged (snd (snd (provide_feedback i r srv w)))
       = logged w @
         map (\<lambda>(k, eng).
                if 0 \<le> i \<and> i < int (length (enhancement_history eng))
                then (INFO, ''Recorded effectiveness rating '' @ str_int r
                            @ '' for enhancement at index '' @ str_int i)
                else (WARNING, ''Invalid enhancement index: '' @ str_int i))
             (prompt_engineers srv)
   \<and> calls (snd (snd (provide_feedback i r srv w))) = calls w"
proof -
  have one: "(0 \<le> i \<and> i < int (length (enhancement_history eng)) \<longrightarrow>
      enhancement_history (fst (record_effectiveness i r eng w))
        = (enhancement_history eng)
            [nat i := (enhancement_history eng ! nat i)\<lparr>effectiveness_rating := Some r\<rparr>]
      \<and> effectiveness_rating (enhancement_history (fst (record_effectiveness i r eng w)) ! nat i)
        = Some r
      \<and> logged (snd (record_effectiveness i r eng w))
        = logged w @ [(INFO, ''Recorded effectiveness rating '' @ str_int r
                             @ '' for enhancement at index '' @ str_int i)])
   \<and> (\<not> (0 \<le> i \<and> i < int (length (enhancement_history eng))) \<longrightarrow>
      fst (record_effectiveness i r eng w) = eng
      \<and> logged (snd (record_effectiveness i r eng w))
        = logged w @ [(WARNING, ''Invalid enhancement index: '' @ str_int i)])"
  proof (cases "0 \<le> i \<and> i < int (length (enhancement_history eng))")
    case True
    then have "nat i < length (enhancement_history eng)" by linarith
    with True show ?thesis
      by (simp add: record_effectiveness_in_range record_effectiveness_world)
  next
    case False
    have "fst (record_effectiveness i r eng w) = eng"
      using False by (rule record_effectiveness_out_of_range)
    moreover have "logged (snd (record_effectiveness i r eng w))
        = logged w @ [(WARNING, ''Invalid enhancement index: '' @ str_int i)]"
      using False by (auto simp: record_effectiveness_world)
    ultimately show ?thesis
      using False by blast
  qed
  have calls_one: "calls (snd (record_effectiveness i r eng w)) = calls w"
    by (simp add: record_effectiveness_world)
  have all: "provide_feedback i r srv w =
     (Inr [(''status'', ''success'')],
      srv\<lparr>prompt_engineers :=
        map (\<lambda>(k, eng). (k, fst (record_effectiveness i r eng w))) (prompt_engineers srv)\<rparr>,
      w\<lparr>logged := logged w @
          map (\<lambda>(k, eng).
                 if 0 \<le> i \<and> i < int (length (enhancement_history eng))
                 then (INFO, ''Recorded effectiveness rating '' @ str_int r
                             @ '' for enhancement at index '' @ str_int i)
                 else (WARNING, ''Invalid enhancement index: '' @ str_int i))
              (prompt_engineers srv)\<rparr>)"
    by (simp only: provide_feedback_def record_in_all_result [of i r _ w w] prod.case)
  have answer: "fst (provide_feedback i r srv w) = Inr [(''status'', ''success'')]"
    by (simp add: all)
  have providers: "llm_providers (fst (snd (provide_feedback i r srv w))) = llm_providers srv"
    by (simp add: all)
  have engineers: "prompt_engineers (fst (snd (provide_feedback i r srv w)))
       = map (\<lambda>(k, eng). (k, fst (record_effectiveness i r eng w))) (prompt_engineers srv)"
    by (simp add: all)
  have log: "logged (snd (snd (provide_feedback i r srv w)))
       = logged w @
         map (\<lambda>(k, eng).
                if 0 \<le> i \<and> i < int (length (enhancement_history eng))
                then (INFO, ''Recorded effectiveness rating '' @ str_int r
                            @ '' for enhancement at index '' @ str_int i)
                else (WARNING, ''Invalid enhancement index: '' @ str_int i))
             (prompt_engineers srv)"
    by (simp add: all)
  have calls_all: "calls (snd (snd (provide_feedback i r srv w))) = calls w"
    by (simp add: all)
  from one calls_one answer providers engineers log calls_all show ?thesis
    by (intro conjI) (erule conjunct1, erule conjunct2, assumption+)
qed

theorem record_effectiveness_cases_witness:
  "(0::int) \<le> 0 \<and> (0::int) < int (length (enhancement_history engineer_with_one_record))
   \<and> \<not> ((0::int) \<le> 99 \<and> (99::int) < int (length (enhancement_history engineer_with_one_record)))
   \<and> effectiveness_rating
        (enhancement_history (fst (record_effectiveness 0 5 engineer_with_one_record empty_world)) ! 0)
        = Some 5
   \<and> logged (snd (record_effectiveness 0 5 engineer_with_one_record empty_world))
        = [(INFO, ''Recorded effectiveness rating 5 for enhancement at index 0'')]
   \<and> fst (record_effectiveness 99 5 engineer_with_one_record empty_world)
        = engineer_with_one_record
   \<and> logged (snd (record_effectiveness 99 5 engineer_with_one_record empty_world))
        = [(WARNING, ''Invalid enhancement index: 99'')]
   \<and> fst (provide_feedback 0 5 one_record_server empty_world) = Inr [(''status'', ''success'')]
   \<and> prompt_engineers (fst (snd (provide_feedback 99 5 one_record_server empty_world)))
        = [(0, engineer_with_one_record)]
   \<and> logged (snd (snd (provide_feedback 0 5 one_record_server empty_world)))
        = [(INFO, ''Recorded effectiveness rating 5 for enhancement at index 0'')]"
proof -
  have len: "length (enhancement_history engineer_with_one_record) = 1"
    by (simp add: engineer_with_one_record_def)
  have ne: "enhancement_history engineer_with_one_record \<noteq> []"
    by (simp add: engineer_with_one_record_def)
  have srv: "prompt_engineers one_record_server = [(0, engineer_with_one_record)]"
    by (simp add: one_record_server_def)
  from record_effectiveness_cases
      [where i = 0 and eng = engineer_with_one_record and r = 5 and w = empty_world
         and srv = one_record_server]
    record_effectiveness_cases
      [where i = 99 and eng = engineer_with_one_record and r = 5 and w = empty_world
         and srv = one_record_server]
  show ?thesis
    by (simp add: len ne srv str_int_digits empty_world_def)
qed

text \<open>
  Claim C7. For an index in range, \<open>record_effectiveness\<close> changes nothing but the
  rating of the record at that index: the history keeps its length, every other record is
  the one it was, and the record itself keeps its original prompt, its enhanced prompt and
  its timestamp.
\<close>

theorem record_effectiveness_frame:
  assumes "0 \<le> i" and "i < int (length (enhancement_history eng))"
  shows "length (enhancement_history (fst (record_effectiveness i r eng w)))
           = length (enhancement_history eng)
       \<and> (\<forall>j < length (enhancement_history eng). j \<noteq> nat i \<longrightarrow>
            enhancement_history (fst (record_effectiveness i r eng w)) ! j
              = enhancement_history eng ! j)
       \<and> enhancement_history (fst (record_effectiveness i r eng w)) ! nat i
           = (enhancement_history eng ! nat i)\<lparr>effectiveness_rating := Some r\<rparr>
       \<and> original_prompt (enhancement_history (fst (record_effectiveness i r eng w)) ! nat i)
           = original_prompt (enhancement_history eng ! nat i)
       \<and> enhanced_prompt (enhancement_history (fst (record_effectiveness i r eng w)) ! nat i)
           = enhanced_prompt (enhancement_history eng ! nat i)
       \<and> timestamp (enhancement_history (fst (record_effectiveness i r eng w)) ! nat i)
           = timestamp (enhancement_history eng ! nat i)
       \<and> llm_provider (fst (record_effectiveness i r eng w)) = llm_provider eng
       \<and> enhancement_rules (fst (record_effectiveness i r eng w)) = enhancement_rules eng"
  using assms by (simp add: record_effectiveness_def)

theorem record_effectiveness_frame_witness:
  "(0::int) \<le> 0 \<and> (0::int) < int (length (enhancement_history engineer_with_one_record))
   \<and> enhancement_history (fst (record_effectiveness 0 4 engineer_with_one_record empty_world))
      = [\<lparr>original_prompt = ''debug this function'', enhanced_prompt = ''Fixed prompt text'',
          timestamp = 1700000000, effectiveness_rating = Some 4\<rparr>]"
proof -
  have h0: "(0::int) \<le> 0" by simp
  have h1: "(0::int) < int (length (enhancement_history engineer_with_one_record))"
    by (simp add: engineer_with_one_record_def)
  have "length (enhancement_history (fst (record_effectiveness 0 4 engineer_with_one_record empty_world))) = 1"
    and "enhancement_history (fst (record_effectiveness 0 4 engineer_with_one_record empty_world)) ! nat 0
      = (enhancement_history engineer_with_one_record ! nat 0)\<lparr>effectiveness_rating := Some 4\<rparr>"
    using record_effectiveness_frame [OF h0 h1, of 4 empty_world]
    by (simp_all add: engineer_with_one_record_def)
  then have "enhancement_history (fst (record_effectiveness 0 4 engineer_with_one_record empty_world))
      = [(enhancement_history engineer_with_one_record ! 0)\<lparr>effectiveness_rating := Some 4\<rparr>]"
    by (cases "enhancement_history (fst (record_effectiveness 0 4 engineer_with_one_record empty_world))")
      simp_all
  with h0 h1 show ?thesis by (simp add: engineer_with_one_record_def)
qed


section \<open>Enhancing a prompt\<close>

lemma enhance_prompt_after_format:
  assumes "enhancement_rules eng (detect_prompt_type p) = Some rule"
    and "getitem rule ''template'' = Inr tmpl"
    and "format_method (format_other env) tmpl p = Inr m"
    and "getitem rule ''system_prompt'' = Inr sp"
  shows "enhance_prompt env p eng w =
     (case llm env (calls w) (llm_provider eng, m, [(''system_prompt'', sp)]) of
        Inr t \<Rightarrow>
          (Inr t,
           eng\<lparr>enhancement_history := enhancement_history eng @ [new_PromptEnhancement env p t]\<rparr>,
           log_to DEBUG (''Enhanced: '' @ t)
             (log_to DEBUG (''Original: '' @ p)
               (log_to INFO (''Enhanced prompt of type '' @ quoted (detect_prompt_type p))
                 (w\<lparr>calls := calls w @ [(llm_provider eng, m, [(''system_prompt'', sp)])]\<rparr>))))
      | Inl e \<Rightarrow>
          (Inr p, eng,
           log_to ERROR (''Error enhancing prompt: '' @ str_exc e)
             (log_to ERROR (''Error generating response from ''
                            @ provider_label (provider_class (llm_provider eng)) @ '': '' @ str_exc e)
               (w\<lparr>calls := calls w @ [(llm_provider eng, m, [(''system_prompt'', sp)])]\<rparr>))))"
  using assms
  by (simp add: enhance_prompt_def generate_response_def Let_def split: sum.splits)

lemma enhance_prompt_no_system_prompt:
  assumes "enhancement_rules eng (detect_prompt_type p) = Some rule"
    and "getitem rule ''template'' = Inr tmpl"
    and "format_method (format_other env) tmpl p = Inr m"
    and "getitem rule ''system_prompt'' = Inl e"
  shows "enhance_prompt env p eng w =
     (Inr p, eng, log_to ERROR (''Error enhancing prompt: '' @ str_exc e) w)"
  using assms by (simp add: enhance_prompt_def)

lemma enhance_prompt_no_template:
  assumes "enhancement_rules eng (detect_prompt_type p) = Some rule"
    and "getitem rule ''template'' = Inl e"
  shows "enhance_prompt env p eng w = (Inl e, eng, w)"
  using assms by (simp add: enhance_prompt_def)

lemma enhance_prompt_format_raises:
  assumes "enhancement_rules eng (detect_prompt_type p) = Some rule"
    and "getitem rule ''template'' = Inr tmpl"
    and "format_method (format_other env) tmpl p = Inl e"
  shows "enhance_prompt env p eng w = (Inl e, eng, w)"
  using assms by (simp add: enhance_prompt_def)

lemma enhance_prompt_returns:
  assumes "enhancement_rules eng (detect_prompt_type p) = Some rule"
    and "getitem rule ''template'' = Inr tmpl"
    and "format_method (format_other env) tmpl p = Inr m"
  shows "\<exists>s. fst (enhance_prompt env p eng w) = Inr s"
proof (cases "getitem rule ''system_prompt''")
  case (Inl e)
  from enhance_prompt_no_system_prompt [OF assms Inl, of w] show ?thesis by simp
next
  case (Inr sp)
  from enhance_prompt_after_format [OF assms Inr, of w] show ?thesis
    by (auto split: sum.splits)
qed

lemma loaded_rules_dom:
  "fst (load_enhancement_rules env w) = Inr rules \<Longrightarrow> detect_prompt_type p \<in> dom rules"
proof -
  assume load: "fst (load_enhancement_rules env w) = Inr rules"
  have builtin: "detect_prompt_type p \<in> dom default_rules"
    using detect_prompt_type_range [of p] by (simp only: dom_default_rules)
  from load consider "rules = default_rules"
    | custom where "rules = default_rules ++ custom"
    by (auto simp: loaded_rules_cases split: rules_source.splits)
  then show ?thesis
  proof cases
    case 1
    with builtin show ?thesis by simp
  next
    case 2
    with builtin show ?thesis by simp
  qed
qed

text \<open>
  Claim C5. When the model answers the meta-prompt with a text \<open>t\<close>, \<open>enhance_prompt\<close>
  returns \<open>t\<close> and appends exactly one record, with the prompt as original prompt, \<open>t\<close>
  as enhanced prompt and no rating; the model was called once, with the meta-prompt and
  the rule's system prompt.
\<close>

theorem enhance_prompt_success:
  assumes "enhancement_rules eng (detect_prompt_type p) = Some rule"
    and "getitem rule ''template'' = Inr tmpl"
    and "format_method (format_other env) tmpl p = Inr meta_prompt"
    and "getitem rule ''system_prompt'' = Inr sp"
    and "llm env (calls w) (llm_provider eng, meta_prompt, [(''system_prompt'', sp)]) = Inr t"
  shows "fst (enhance_prompt env p eng w) = Inr t
     \<and> fst (snd (enhance_prompt env p eng w))
         = eng\<lparr>enhancement_history := enhancement_history eng
              @ [\<lparr>original_prompt = p, enhanced_prompt = t, timestamp = time_time env,
                   effectiveness_rating = None\<rparr>]\<rparr>
     \<and> calls (snd (snd (enhance_prompt env p eng w)))
         = calls w @ [(llm_provider eng, meta_prompt, [(''system_prompt'', sp)])]"
  using assms
  by (simp add: enhance_prompt_def generate_response_def new_PromptEnhancement_def log_to_def)

theorem enhance_prompt_success_witness:
  "fst (enhance_prompt (scenario_env (llm_answers ''Fixed prompt text'') FileNotFoundError)
          ''debug this function''
          (scenario_engineer (scenario_env (llm_answers ''Fixed prompt text'') FileNotFoundError))
          empty_world) = Inr ''Fixed prompt text''
   \<and> enhancement_history (fst (snd (enhance_prompt
          (scenario_env (llm_answers ''Fixed prompt text'') FileNotFoundError)
          ''debug this function''
          (scenario_engineer (scenario_env (llm_answers ''Fixed prompt text'') FileNotFoundError))
          empty_world)))
      = [\<lparr>original_prompt = ''debug this function'', enhanced_prompt = ''Fixed prompt text'',
          timestamp = 1700000000, effectiveness_rating = None\<rparr>]"
proof -
  let ?env = "scenario_env (llm_answers ''Fixed prompt text'') FileNotFoundError"
  let ?eng = "scenario_engineer ?env"
  let ?mp = "before_field (template coding_rule) @ ''debug this function''
             @ after_field (template coding_rule)"
  have rule: "enhancement_rules ?eng (detect_prompt_type ''debug this function'')
      = Some (rule_dict coding_rule)"
    by (simp add: scenario_engineer_plain detect_debug default_rules_lookup)
  have tmpl: "getitem (rule_dict coding_rule) ''template'' = Inr (PyStr (template coding_rule))"
    by (rule getitem_rule_dict)
  have sp: "getitem (rule_dict coding_rule) ''system_prompt''
      = Inr (PyStr (system_prompt coding_rule))"
    by (rule getitem_rule_dict)
  have "str_format (format_other ?env) (template coding_rule) ''debug this function'' = Inr ?mp"
    by (rule single_prompt_field_format [OF coding_rule_field])
  then have fmt: "format_method (format_other ?env) (PyStr (template coding_rule))
      ''debug this function'' = Inr ?mp"
    by simp
  have ans: "llm ?env (calls empty_world) (llm_provider ?eng, ?mp,
           [(''system_prompt'', PyStr (system_prompt coding_rule))]) = Inr ''Fixed prompt text''"
    by (simp add: scenario_env_sel llm_answers_def)
  from enhance_prompt_success [OF rule tmpl fmt sp ans]
  show ?thesis
    by (simp add: scenario_engineer_plain scenario_env_sel)
qed

text \<open>
  Claim C1 has a failed model call append a record whose enhanced prompt is the original
  prompt. The method returns the prompt from its \<open>except\<close> branch, and the record is
  appended only after an answer: with a model that fails, \<open>enhance_prompt\<close> on a fresh
  prompt engineer returns \<open>hello\<close> and the history is as empty as before.
\<close>

theorem enhance_prompt_failure_appends_nothing:
  "fst (enhance_prompt failing_env ''hello'' (scenario_engineer failing_env) empty_world) = Inr ''hello''
   \<and> enhancement_history (scenario_engineer failing_env) = []
   \<and> enhancement_history
        (fst (snd (enhance_prompt failing_env ''hello'' (scenario_engineer failing_env) empty_world)))
      = []"
proof -
  have eng: "scenario_engineer failing_env
      = \<lparr>llm_provider = scenario_provider, enhancement_history = [],
         enhancement_rules = default_rules\<rparr>"
    by (simp add: failing_env_def scenario_engineer_plain)
  have rule: "enhancement_rules (scenario_engineer failing_env) (detect_prompt_type ''hello'')
      = Some (rule_dict default_rule)"
    by (simp add: eng detect_hello default_rules_lookup)
  have tmpl: "getitem (rule_dict default_rule) ''template'' = Inr (PyStr (template default_rule))"
    by (rule getitem_rule_dict)
  have sp: "getitem (rule_dict default_rule) ''system_prompt''
      = Inr (PyStr (system_prompt default_rule))"
    by (rule getitem_rule_dict)
  have "str_format (format_other failing_env) (template default_rule) ''hello''
      = Inr (before_field (template default_rule) @ ''hello'' @ after_field (template default_rule))"
    by (rule single_prompt_field_format [OF default_rule_field])
  then have fmt: "format_method (format_other failing_env) (PyStr (template default_rule)) ''hello''
      = Inr (before_field (template default_rule) @ ''hello'' @ after_field (template default_rule))"
    by simp
  have fails: "llm failing_env earlier c = Inl (PyException ''ConnectionError'' ''connection refused'')"
    for earlier c
    by (simp add: failing_env_def scenario_env_sel llm_fails_def)
  have "fst (enhance_prompt failing_env ''hello'' (scenario_engineer failing_env) empty_world)
      = Inr ''hello''"
    and "fst (snd (enhance_prompt failing_env ''hello'' (scenario_engineer failing_env) empty_world))
      = scenario_engineer failing_env"
    by (simp_all add: enhance_prompt_after_format [OF rule tmpl fmt sp] fails)
  then show ?thesis by (simp add: eng)
qed

text \<open>
  Claim C2 as stated, that \<open>enhance_prompt\<close> never raises: the template of a custom
  rule is formatted before the \<open>try\<close>, so a custom template with a field other than
  \<open>{prompt}\<close> makes the method raise \<open>KeyError\<close>, although the model would have
  answered.
\<close>

theorem enhance_prompt_raises_on_custom_template:
  "fst (enhance_prompt overlay_env ''hello'' (scenario_engineer overlay_env) empty_world)
     = Inl (KeyError ''x'')"
proof -
  have rule: "enhancement_rules (scenario_engineer overlay_env) (detect_prompt_type ''hello'')
      = Some (rule_dict braces_rule)"
    by (simp add: scenario_engineer_def new_PromptEngineer_def load_enhancement_rules_def
        overlay_env_def scenario_env_sel detect_hello)
  have tmpl: "getitem (rule_dict braces_rule) ''template'' = Inr (PyStr (template braces_rule))"
    by (rule getitem_rule_dict)
  have "str_format (format_other overlay_env) (template braces_rule) ''hello''
      = Inl (KeyError ''x'')"
    by (simp add: braces_rule_def str_format.simps emit_def plain_field_def ident_char_def
        digit_char_def ascii_uppercase_def ascii_lowercase_def)
  then have fmt: "format_method (format_other overlay_env) (PyStr (template braces_rule)) ''hello''
      = Inl (KeyError ''x'')"
    by simp
  show ?thesis
    by (simp add: enhance_prompt_format_raises [OF rule tmpl fmt])
qed

text \<open>
  Claim C2, amended. For a rule set built by \<open>load_enhancement_rules\<close> (from any
  state of the rules file in which loading does not raise) the lookup at the detected
  category never fails. For every prompt and every behaviour of the model,
  \<open>enhance_prompt\<close> returns a string exactly when the rule of that category has a
  \<open>template\<close> entry and formatting it succeeds; it does whenever that entry is a string
  with \<open>{prompt}\<close> as its only field, and so whenever the custom rules leave the detected
  category to the built-in rule.
\<close>

theorem enhance_prompt_total:
  assumes "fst (load_enhancement_rules env0 w0) = Inr (enhancement_rules eng)"
  shows "detect_prompt_type p \<in> dom (enhancement_rules eng)
     \<and> ((\<exists>s. fst (enhance_prompt env p eng w) = Inr s) \<longleftrightarrow>
          (\<exists>rule tmpl m. enhancement_rules eng (detect_prompt_type p) = Some rule
             \<and> getitem rule ''template'' = Inr tmpl
             \<and> format_method (format_other env) tmpl p = Inr m))
     \<and> ((\<forall>rule. enhancement_rules eng (detect_prompt_type p) = Some rule
            \<longrightarrow> (\<exists>t. getitem rule ''template'' = Inr (PyStr t) \<and> single_prompt_field t))
          \<longrightarrow> (\<exists>s. fst (enhance_prompt env p eng w) = Inr s))
     \<and> ((\<forall>custom. enhancement_rules_json env0 = Loaded custom
            \<longrightarrow> custom (detect_prompt_type p) = None)
          \<longrightarrow> (\<exists>s. fst (enhance_prompt env p eng w) = Inr s))"
proof -
  have dom: "detect_prompt_type p \<in> dom (enhancement_rules eng)"
    using assms by (rule loaded_rules_dom)
  then obtain rule where rule: "enhancement_rules eng (detect_prompt_type p) = Some rule"
    by auto
  have iff: "(\<exists>s. fst (enhance_prompt env p eng w) = Inr s) \<longleftrightarrow>
          (\<exists>rule tmpl m. enhancement_rules eng (detect_prompt_type p) = Some rule
             \<and> getitem rule ''template'' = Inr tmpl
             \<and> format_method (format_other env) tmpl p = Inr m)"
  proof (cases "getitem rule ''template''")
    case (Inl e)
    with rule enhance_prompt_no_template [OF rule Inl, of env w] show ?thesis by simp
  next
    case tmpl: (Inr tmpl)
    show ?thesis
    proof (cases "format_method (format_other env) tmpl p")
      case (Inl e)
      with rule tmpl enhance_prompt_format_raises [OF rule tmpl Inl, of w] show ?thesis by simp
    next
      case (Inr m)
      with rule tmpl enhance_prompt_returns [OF rule tmpl Inr, of w] show ?thesis by auto
    qed
  qed
  have field: "\<exists>s. fst (enhance_prompt env p eng w) = Inr s"
    if "getitem rule ''template'' = Inr (PyStr t)" and "single_prompt_field t" for t
  proof -
    from single_prompt_field_format [OF that(2)]
    have "format_method (format_other env) (PyStr t) p
        = Inr (before_field t @ p @ after_field t)"
      by simp
    from enhance_prompt_returns [OF rule that(1) this] show ?thesis .
  qed
  have builtin: "\<exists>s. fst (enhance_prompt env p eng w) = Inr s"
    if "\<forall>custom. enhancement_rules_json env0 = Loaded custom
            \<longrightarrow> custom (detect_prompt_type p) = None"
  proof -
    from assms consider "enhancement_rules eng = default_rules"
      | custom where "enhancement_rules_json env0 = Loaded custom"
          and "enhancement_rules eng = default_rules ++ custom"
      by (auto simp: loaded_rules_cases split: rules_source.splits)
    then have "enhancement_rules eng (detect_prompt_type p) = default_rules (detect_prompt_type p)"
    proof cases
      case 1
      then show ?thesis by simp
    next
      case 2
      with that show ?thesis by (simp add: map_add_def)
    qed
    with rule have "default_rules (detect_prompt_type p) = Some rule" by simp
    then obtain r where "rule = rule_dict r" and "single_prompt_field (template r)"
      using default_rules_single_field by blast
    then show ?thesis using field [of "template r"] by (simp add: getitem_rule_dict)
  qed
  from dom iff field builtin rule show ?thesis by auto
qed

theorem enhance_prompt_total_witness:
  "fst (load_enhancement_rules failing_env empty_world)
     = Inr (enhancement_rules (scenario_engineer failing_env))
   \<and> detect_prompt_type ''hello'' \<in> dom (enhancement_rules (scenario_engineer failing_env))
   \<and> (\<exists>s. fst (enhance_prompt overlay_env ''hello'' (scenario_engineer failing_env) empty_world)
          = Inr s)"
proof -
  have built: "fst (load_enhancement_rules failing_env empty_world)
      = Inr (enhancement_rules (scenario_engineer failing_env))"
    by (simp add: failing_env_def scenario_engineer_plain load_enhancement_rules_def
        scenario_env_sel)
  have plain: "\<forall>custom. enhancement_rules_json failing_env = Loaded custom
      \<longrightarrow> custom (detect_prompt_type ''hello'') = None"
    by (simp add: failing_env_def scenario_env_sel)
  from enhance_prompt_total [OF built, of "''hello''" overlay_env empty_world] plain built
  show ?thesis by blast
qed


section \<open>Processing a request\<close>

lemma map_of_dict_store: "map_of (dict_store k v d) = (map_of d)(k \<mapsto> v)"
  by (induction d) (auto simp: fun_eq_iff)

lemma get_or_create_provider_engineers:
  "get_or_create_provider env name key mdl srv = (r, srv1)
   \<Longrightarrow> prompt_engineers srv1 = prompt_engineers srv"
  by (auto simp: get_or_create_provider_def Let_def split: option.splits sum.splits if_splits)

lemma log_to_calls: "calls (log_to level msg w) = calls w"
  by (simp add: log_to_def)

lemma process_prompt_steps:
  assumes "get_or_create_provider env (provider req) (dict_get (options req) ''api_key'')
             (model req) srv = (Inr p, srv1)"
    and "get_or_create_prompt_engineer env p srv1 w = (Inr eng, srv2, w1)"
    and "enhance_and_answer env req p eng w1 = (result, eng1, w2)"
  shows "process_prompt env req srv w =
     (case result of
        Inr resp \<Rightarrow>
          (Inr resp,
           srv2\<lparr>prompt_engineers := dict_store (ident p) eng1 (prompt_engineers srv2)\<rparr>, w2)
      | Inl e \<Rightarrow>
          (Inl (HTTPException 500 (str_exc e)),
           srv2\<lparr>prompt_engineers := dict_store (ident p) eng1 (prompt_engineers srv2)\<rparr>,
           log_to ERROR (''Error processing prompt: '' @ str_exc e) w2))"
  using assms
  by (simp add: process_prompt_def process_prompt_try_def split: sum.splits)

lemma process_prompt_no_provider:
  assumes "get_or_create_provider env (provider req) (dict_get (options req) ''api_key'')
             (model req) srv = (Inl e, srv1)"
  shows "process_prompt env req srv w =
     (Inl (HTTPException 500 (str_exc e)), srv,
      log_to ERROR (''Error processing prompt: '' @ str_exc e) w)"
proof -
  from assms have "srv1 = srv"
    by (auto simp: get_or_create_provider_def Let_def split: option.splits sum.splits if_splits)
  with assms show ?thesis
    by (simp add: process_prompt_def process_prompt_try_def)
qed

lemma get_or_create_prompt_engineer_raises:
  "get_or_create_prompt_engineer env p srv w = (Inl e, srv2, w1) \<longleftrightarrow>
     map_of (prompt_engineers srv) (ident p) = None
     \<and> enhancement_rules_json env = Raises e \<and> srv2 = srv \<and> w1 = w"
  by (auto simp: get_or_create_prompt_engineer_def new_PromptEngineer_def
      load_enhancement_rules_def split: option.splits rules_source.splits)

lemma process_prompt_no_engineer:
  assumes "get_or_create_provider env (provider req) (dict_get (options req) ''api_key'')
             (model req) srv = (Inr p, srv1)"
    and "get_or_create_prompt_engineer env p srv1 w = (Inl e, srv2, w1)"
  shows "process_prompt env req srv w =
     (Inl (HTTPException 500 (str_exc e)), srv1,
      log_to ERROR (''Error processing prompt: '' @ str_exc e) w)"
proof -
  from assms(2) have "srv2 = srv1" and "w1 = w"
    by (simp_all add: get_or_create_prompt_engineer_raises)
  with assms show ?thesis
    by (simp add: process_prompt_def process_prompt_try_def)
qed

lemma enhance_and_answer_bypass:
  assumes "bypass_enhancement req"
  shows "enhance_and_answer env req p eng w =
     (case llm env (calls w) (p, prompt req, options req) of
        Inr answer \<Rightarrow>
          (Inr \<lparr>response = answer, enhancement_index = None\<rparr>, eng,
           w\<lparr>calls := calls w @ [(p, prompt req, options req)]\<rparr>)
      | Inl e \<Rightarrow>
          (Inl e, eng,
           log_to ERROR (''Error generating response from '' @ provider_label (provider_class p)
                         @ '': '' @ str_exc e)
             (w\<lparr>calls := calls w @ [(p, prompt req, options req)]\<rparr>)))"
  using assms
  by (simp add: enhance_and_answer_def generate_response_def Let_def split: sum.splits)

lemma enhance_and_answer_enhanced:
  assumes "\<not> bypass_enhancement req"
    and "enhance_prompt env (prompt req) eng w = (Inr final_prompt, eng1, w1)"
  shows "enhance_and_answer env req p eng w =
     (case llm env (calls w1) (p, final_prompt, options req) of
        Inr answer \<Rightarrow>
          (Inr \<lparr>response = answer,
                enhancement_index = Some (int (length (enhancement_history eng1)) - 1)\<rparr>, eng1,
           w1\<lparr>calls := calls w1 @ [(p, final_prompt, options req)]\<rparr>)
      | Inl e \<Rightarrow>
          (Inl e, eng1,
           log_to ERROR (''Error generating response from '' @ provider_label (provider_class p)
                         @ '': '' @ str_exc e)
             (w1\<lparr>calls := calls w1 @ [(p, final_prompt, options req)]\<rparr>)))"
  using assms
  by (simp add: enhance_and_answer_def generate_response_def Let_def split: sum.splits)

lemma get_or_create_prompt_engineer_cases:
  "get_or_create_prompt_engineer env p srv w = (Inr eng, srv2, w1) \<Longrightarrow>
     (map_of (prompt_engineers srv) (ident p) = Some eng \<and> srv2 = srv \<and> w1 = w)
   \<or> (map_of (prompt_engineers srv) (ident p) = None
       \<and> enhancement_history eng = []
       \<and> prompt_engineers srv2 = dict_store (ident p) eng (prompt_engineers srv)
       \<and> calls w1 = calls w)"
  by (auto simp: get_or_create_prompt_engineer_def new_PromptEngineer_def
      load_enhancement_rules_def log_to_def split: option.splits prod.splits rules_source.splits)

lemma hello_request_sel:
  "prompt (hello_request b) = ''hello''"
  "provider (hello_request b) = ''openai''"
  "model (hello_request b) = None"
  "options (hello_request b) = [(''api_key'', PyStr ''sk-test'')]"
  "bypass_enhancement (hello_request b) = b"
  by (simp_all add: hello_request_def)

lemma scenario_provider_created:
  "get_or_create_provider (scenario_env remote rules) (provider (hello_request b))
     (dict_get (options (hello_request b)) ''api_key'') (model (hello_request b)) empty_server
   = (Inr scenario_provider,
      empty_server\<lparr>llm_providers := [(''openai_default'', scenario_provider)]\<rparr>)"
  by (simp add: get_or_create_provider_def provider_key_def hello_request_sel dict_get_def
      empty_server_def new_connector_def scenario_provider_def Let_def lower_def lower_char_def
      ascii_uppercase_def ascii_lowercase_def)

lemma scenario_engineer_created:
  "get_or_create_prompt_engineer (scenario_env remote FileNotFoundError) scenario_provider
     (empty_server\<lparr>llm_providers := [(''openai_default'', scenario_provider)]\<rparr>) empty_world
   = (Inr (scenario_engineer (scenario_env remote FileNotFoundError)),
      \<lparr>llm_providers = [(''openai_default'', scenario_provider)],
       prompt_engineers = [(0, scenario_engineer (scenario_env remote FileNotFoundError))]\<rparr>,
      log_to INFO ''No custom enhancement rules found or invalid format.'' empty_world)"
  by (simp add: get_or_create_prompt_engineer_def empty_server_def scenario_engineer_def
      new_PromptEngineer_def load_enhancement_rules_def scenario_env_sel scenario_provider_def)

lemma default_format_hello:
  "format_method other (PyStr (template default_rule)) ''hello''
     = Inr (before_field (template default_rule) @ ''hello'' @ after_field (template default_rule))"
  using single_prompt_field_format [OF default_rule_field, of other "''hello''"] by simp

lemma scenario_engineer_rule_hello:
  "enhancement_rules (scenario_engineer (scenario_env remote FileNotFoundError))
     (detect_prompt_type ''hello'') = Some (rule_dict default_rule)"
  by (simp add: scenario_engineer_plain detect_hello default_rules_lookup)

lemma unsupported_provider_refused:
  "get_or_create_provider env (provider unsupported_request)
     (dict_get (options unsupported_request) ''api_key'') (model unsupported_request) empty_server
   = (Inl (ValueError ''Unsupported provider: foo''), empty_server)"
  by (simp add: get_or_create_provider_def provider_key_def unsupported_request_def
      empty_server_def Let_def lower_def lower_char_def ascii_uppercase_def ascii_lowercase_def)

lemma unreadable_rules_raise:
  "get_or_create_prompt_engineer unreadable_env scenario_provider
     (empty_server\<lparr>llm_providers := [(''openai_default'', scenario_provider)]\<rparr>) empty_world
   = (Inl (PyException ''PermissionError''
            (''[Errno 13] Permission denied: '' @ quoted ''enhancement_rules.json'')),
      empty_server\<lparr>llm_providers := [(''openai_default'', scenario_provider)]\<rparr>, empty_world)"
  by (simp add: get_or_create_prompt_engineer_raises unreadable_env_def scenario_env_sel
      empty_server_def)

text \<open>
  Claim C6 as stated holds for every request with \<open>bypass_enhancement\<close> set. The bypass
  is tested after the provider and the prompt engineer have been obtained, and either can
  raise: a bypassed request that names the provider \<open>foo\<close> is answered with status 500 and
  no provider has been called; so is a bypassed request to OpenAI when the rules file
  cannot be read, because the prompt engineer is constructed although it will not be used.
\<close>

theorem process_prompt_bypass_without_call:
  "bypass_enhancement unsupported_request
   \<and> fst (process_prompt (scenario_env (llm_answers ''Hi there'') FileNotFoundError)
          unsupported_request empty_server empty_world)
       = Inl (HTTPException 500 ''Unsupported provider: foo'')
   \<and> calls (snd (snd (process_prompt (scenario_env (llm_answers ''Hi there'') FileNotFoundError)
          unsupported_request empty_server empty_world))) = []
   \<and> bypass_enhancement (hello_request True)
   \<and> fst (process_prompt unreadable_env (hello_request True) empty_server empty_world)
       = Inl (HTTPException 500
           (''[Errno 13] Permission denied: '' @ quoted ''enhancement_rules.json''))
   \<and> calls (snd (snd (process_prompt unreadable_env (hello_request True) empty_server
          empty_world))) = []"
proof -
  have prov: "get_or_create_provider unreadable_env (provider (hello_request True))
     (dict_get (options (hello_request True)) ''api_key'') (model (hello_request True)) empty_server
   = (Inr scenario_provider,
      empty_server\<lparr>llm_providers := [(''openai_default'', scenario_provider)]\<rparr>)"
    unfolding unreadable_env_def by (rule scenario_provider_created)
  have refused: "process_prompt (scenario_env (llm_answers ''Hi there'') FileNotFoundError)
      unsupported_request empty_server empty_world
    = (Inl (HTTPException 500 ''Unsupported provider: foo''), empty_server,
       log_to ERROR (''Error processing prompt: '' @ ''Unsupported provider: foo'') empty_world)"
    using process_prompt_no_provider [OF unsupported_provider_refused, of _ empty_world]
    by (simp add: ValueError_def)
  have unreadable: "process_prompt unreadable_env (hello_request True) empty_server empty_world
    = (Inl (HTTPException 500
              (''[Errno 13] Permission denied: '' @ quoted ''enhancement_rules.json'')),
       empty_server\<lparr>llm_providers := [(''openai_default'', scenario_provider)]\<rparr>,
       log_to ERROR (''Error processing prompt: ''
         @ ''[Errno 13] Permission denied: '' @ quoted ''enhancement_rules.json'') empty_world)"
    using process_prompt_no_engineer [OF prov unreadable_rules_raise]
    by simp
  have "bypass_enhancement unsupported_request" and "bypass_enhancement (hello_request True)"
    by (simp_all add: unsupported_request_def hello_request_sel)
  moreover have "calls empty_world = []"
    by (simp add: empty_world_def)
  ultimately show ?thesis
    unfolding refused unreadable by (simp add: log_to_calls)
qed

text \<open>
  Claim C6, amended. For every request with \<open>bypass_enhancement\<close> set: a response, when
  there is one, has no enhancement index; no history gains a record (every prompt engineer
  afterwards has the history it had before, and one created for this request has an empty
  history). When obtaining the provider raises \<open>e\<close> (an unsupported provider name, a
  missing API key), or when constructing the prompt engineer raises \<open>e\<close> (which happens
  exactly when the provider has no prompt engineer yet and loading the rules file raises
  \<open>e\<close>), the outcome is status 500 with \<open>str(e)\<close> and no provider is called. Otherwise
  the provider is called exactly once, with the prompt of the request and its options, and
  the outcome is the answer (or status 500 with the error of that one call).
\<close>

theorem process_prompt_bypass:
  assumes bypass: "bypass_enhancement req"
  shows "(\<forall>resp. fst (process_prompt env req srv w) = Inr resp \<longrightarrow> enhancement_index resp = None)
     \<and> (\<forall>k eng'. map_of (prompt_engineers (fst (snd (process_prompt env req srv w)))) k = Some eng'
          \<longrightarrow> enhancement_history eng'
              = (case map_of (prompt_engineers srv) k of
                   Some eng \<Rightarrow> enhancement_history eng | None \<Rightarrow> []))
     \<and> (case get_or_create_provider env (provider req) (dict_get (options req) ''api_key'')
               (model req) srv of
          (Inl e, srv1) \<Rightarrow>
            fst (process_prompt env req srv w) = Inl (HTTPException 500 (str_exc e))
            \<and> calls (snd (snd (process_prompt env req srv w))) = calls w
        | (Inr p, srv1) \<Rightarrow>
            (case fst (get_or_create_prompt_engineer env p srv1 w) of
               Inl e \<Rightarrow>
                 map_of (prompt_engineers srv) (ident p) = None
                 \<and> enhancement_rules_json env = Raises e
                 \<and> fst (process_prompt env req srv w) = Inl (HTTPException 500 (str_exc e))
                 \<and> calls (snd (snd (process_prompt env req srv w))) = calls w
             | Inr eng \<Rightarrow>
                 calls (snd (snd (process_prompt env req srv w)))
                   = calls w @ [(p, prompt req, options req)]
                 \<and> fst (process_prompt env req srv w)
                   = (case llm env (calls w) (p, prompt req, options req) of
                        Inr answer \<Rightarrow> Inr \<lparr>response = answer, enhancement_index = None\<rparr>
                      | Inl e \<Rightarrow> Inl (HTTPException 500 (str_exc e)))))"
proof -
  let ?hist = "\<lambda>srv' k. case map_of (prompt_engineers srv') k of
                   Some eng \<Rightarrow> enhancement_history eng | None \<Rightarrow> []"
  obtain made srv1 where prov0: "get_or_create_provider env (provider req)
      (dict_get (options req) ''api_key'') (model req) srv = (made, srv1)"
    by (cases "get_or_create_provider env (provider req) (dict_get (options req) ''api_key'')
      (model req) srv")
  have same: "prompt_engineers srv1 = prompt_engineers srv"
    using prov0 by (rule get_or_create_provider_engineers)
  show ?thesis
  proof (cases made)
    case (Inl e)
    note run = process_prompt_no_provider [OF prov0 [unfolded Inl], of w]
    have "fst (process_prompt env req srv w) = Inl (HTTPException 500 (str_exc e))"
      and "calls (snd (snd (process_prompt env req srv w))) = calls w"
      and "prompt_engineers (fst (snd (process_prompt env req srv w))) = prompt_engineers srv"
      by (simp_all add: run log_to_calls)
    then show ?thesis
      by (simp add: prov0 Inl)
  next
    case p: (Inr p)
    note prov = prov0 [unfolded p]
    obtain made_eng srv2 w1 where eng0:
      "get_or_create_prompt_engineer env p srv1 w = (made_eng, srv2, w1)"
      by (cases "get_or_create_prompt_engineer env p srv1 w")
    show ?thesis
    proof (cases made_eng)
      case (Inl e)
      note eng = eng0 [unfolded Inl]
      note run = process_prompt_no_engineer [OF prov eng]
      from eng have none: "map_of (prompt_engineers srv) (ident p) = None"
        and raises: "enhancement_rules_json env = Raises e"
        by (simp_all add: get_or_create_prompt_engineer_raises same)
      have "fst (process_prompt env req srv w) = Inl (HTTPException 500 (str_exc e))"
        and "calls (snd (snd (process_prompt env req srv w))) = calls w"
        and "prompt_engineers (fst (snd (process_prompt env req srv w))) = prompt_engineers srv"
        by (simp_all add: run log_to_calls same)
      with none raises show ?thesis
        by (simp add: prov eng)
    next
      case e: (Inr eng)
      note eng = eng0 [unfolded e]
      from get_or_create_prompt_engineer_cases [OF eng]
      have calls_w1: "calls w1 = calls w" by auto
      obtain result w2 where run: "enhance_and_answer env req p eng w1 = (result, eng, w2)"
        and result: "result = (case llm env (calls w) (p, prompt req, options req) of
                  Inr answer \<Rightarrow> Inr \<lparr>response = answer, enhancement_index = None\<rparr>
                | Inl e \<Rightarrow> Inl e)"
        and calls_w2: "calls w2 = calls w @ [(p, prompt req, options req)]"
        using enhance_and_answer_bypass [OF bypass, of env p eng w1]
        by (cases "llm env (calls w) (p, prompt req, options req)")
          (simp_all add: calls_w1 log_to_calls)
      note steps = process_prompt_steps [OF prov eng run]
      have c1: "calls (snd (snd (process_prompt env req srv w)))
          = calls w @ [(p, prompt req, options req)]"
        using steps calls_w2 by (cases result) (simp_all add: log_to_calls)
      have c2: "fst (process_prompt env req srv w)
             = (case llm env (calls w) (p, prompt req, options req) of
                  Inr answer \<Rightarrow> Inr \<lparr>response = answer, enhancement_index = None\<rparr>
                | Inl e \<Rightarrow> Inl (HTTPException 500 (str_exc e)))"
        using steps result by (cases "llm env (calls w) (p, prompt req, options req)") simp_all
      have c3: "\<forall>resp. fst (process_prompt env req srv w) = Inr resp
          \<longrightarrow> enhancement_index resp = None"
        using c2 by (cases "llm env (calls w) (p, prompt req, options req)") auto
      have engs: "prompt_engineers (fst (snd (process_prompt env req srv w)))
          = dict_store (ident p) eng (prompt_engineers srv2)"
        using steps by (cases result) simp_all
      have c4: "enhancement_history eng' = ?hist srv k"
        if "map_of (prompt_engineers (fst (snd (process_prompt env req srv w)))) k = Some eng'"
        for k eng'
        using get_or_create_prompt_engineer_cases [OF eng] that
        by (auto simp: engs same map_of_dict_store split: if_splits)
      from c1 c2 c3 c4 show ?thesis
        by (simp add: prov eng)
    qed
  qed
qed

theorem process_prompt_bypass_witness:
  "bypass_enhancement (hello_request True)
   \<and> fst (process_prompt (scenario_env (llm_answers ''Hi there'') FileNotFoundError)
          (hello_request True) empty_server empty_world)
       = Inr \<lparr>response = ''Hi there'', enhancement_index = None\<rparr>
   \<and> calls (snd (snd (process_prompt (scenario_env (llm_answers ''Hi there'') FileNotFoundError)
          (hello_request True) empty_server empty_world)))
       = [(scenario_provider, ''hello'', [(''api_key'', PyStr ''sk-test'')])]"
proof -
  let ?env = "scenario_env (llm_answers ''Hi there'') FileNotFoundError"
  have b: "bypass_enhancement (hello_request True)" by (simp add: hello_request_sel)
  have prov: "get_or_create_provider ?env (provider (hello_request True))
     (dict_get (options (hello_request True)) ''api_key'') (model (hello_request True)) empty_server
   = (Inr scenario_provider,
      empty_server\<lparr>llm_providers := [(''openai_default'', scenario_provider)]\<rparr>)"
    by (rule scenario_provider_created)
  have eng: "fst (get_or_create_prompt_engineer ?env scenario_provider
     (empty_server\<lparr>llm_providers := [(''openai_default'', scenario_provider)]\<rparr>) empty_world)
   = Inr (scenario_engineer ?env)"
    by (simp add: scenario_engineer_created)
  have answer: "llm ?env (calls empty_world)
      (scenario_provider, prompt (hello_request True), options (hello_request True))
    = Inr ''Hi there''"
    by (simp add: scenario_env_sel llm_answers_def)
  from process_prompt_bypass [OF b, where env = ?env and srv = empty_server and w = empty_world]
  have "calls (snd (snd (process_prompt ?env (hello_request True) empty_server empty_world)))
          = calls empty_world
            @ [(scenario_provider, prompt (hello_request True), options (hello_request True))]
      \<and> fst (process_prompt ?env (hello_request True) empty_server empty_world)
          = Inr \<lparr>response = ''Hi there'', enhancement_index = None\<rparr>"
    by (simp only: prov eng answer prod.case sum.case)
  with b show ?thesis
    by (simp add: hello_request_sel empty_world_def)
qed

text \<open>
  Claim C9. When the call that produces the answer fails with an exception \<open>e\<close>,
  whether the final prompt came from a successful enhancement, from a degraded one or from
  a bypassed one, \<open>process_prompt\<close> does not return a response: it raises one
  \<open>HTTPException\<close> with status 500 whose detail is \<open>str(e)\<close>, and logs the error.
\<close>

theorem process_prompt_final_failure:
  assumes prov: "get_or_create_provider env (provider req) (dict_get (options req) ''api_key'')
             (model req) srv = (Inr p, srv1)"
    and eng: "get_or_create_prompt_engineer env p srv1 w = (Inr eng, srv2, w1)"
    and enh: "(if bypass_enhancement req then (Inr (prompt req), eng, w1)
               else enhance_prompt env (prompt req) eng w1) = (Inr final_prompt, eng1, w2)"
    and fail: "llm env (calls w2) (p, final_prompt, options req) = Inl e"
  shows "fst (process_prompt env req srv w) = Inl (HTTPException 500 (str_exc e))
     \<and> calls (snd (snd (process_prompt env req srv w))) = calls w2 @ [(p, final_prompt, options req)]
     \<and> last (logged (snd (snd (process_prompt env req srv w))))
         = (ERROR, ''Error processing prompt: '' @ str_exc e)"
proof -
  have "\<exists>w3. enhance_and_answer env req p eng w1 = (Inl e, eng1, w3)
      \<and> calls w3 = calls w2 @ [(p, final_prompt, options req)]"
  proof (cases "bypass_enhancement req")
    case True
    with enh have "final_prompt = prompt req" "eng1 = eng" "w2 = w1" by simp_all
    with enhance_and_answer_bypass [OF True, of env p eng w1] fail show ?thesis
      by (simp add: log_to_calls)
  next
    case False
    with enh have "enhance_prompt env (prompt req) eng w1 = (Inr final_prompt, eng1, w2)" by simp
    from enhance_and_answer_enhanced [OF False this, of p] fail show ?thesis
      by (simp add: log_to_calls)
  qed
  then obtain w3 where run: "enhance_and_answer env req p eng w1 = (Inl e, eng1, w3)"
    and calls_w3: "calls w3 = calls w2 @ [(p, final_prompt, options req)]" by blast
  from process_prompt_steps [OF prov eng run] calls_w3 show ?thesis
    by (simp add: log_to_calls log_to_def)
qed

theorem process_prompt_final_failure_witness:
  "fst (process_prompt failing_env (hello_request False) empty_server empty_world)
     = Inl (HTTPException 500 ''connection refused'')"
proof -
  let ?w1 = "log_to INFO ''No custom enhancement rules found or invalid format.'' empty_world"
  let ?e = "PyException ''ConnectionError'' ''connection refused''"
  have fails: "llm failing_env earlier c = Inl ?e" for earlier c
    by (simp add: failing_env_def scenario_env_sel llm_fails_def)
  have rule: "enhancement_rules (scenario_engineer failing_env) (detect_prompt_type ''hello'')
      = Some (rule_dict default_rule)"
    unfolding failing_env_def by (rule scenario_engineer_rule_hello)
  have fmt: "format_method (format_other failing_env) (PyStr (template default_rule)) ''hello''
      = Inr (before_field (template default_rule) @ ''hello'' @ after_field (template default_rule))"
    by (rule default_format_hello)
  obtain w2 where enh: "enhance_prompt failing_env ''hello'' (scenario_engineer failing_env) ?w1
      = (Inr ''hello'', scenario_engineer failing_env, w2)"
    using enhance_prompt_after_format
      [OF rule getitem_rule_dict(1) fmt getitem_rule_dict(2), of ?w1]
    by (simp add: fails)
  have enh': "(if bypass_enhancement (hello_request False)
               then (Inr (prompt (hello_request False)), scenario_engineer failing_env, ?w1)
               else enhance_prompt failing_env (prompt (hello_request False))
                      (scenario_engineer failing_env) ?w1)
      = (Inr ''hello'', scenario_engineer failing_env, w2)"
    using enh by (simp add: hello_request_sel)
  have prov: "get_or_create_provider failing_env (provider (hello_request False))
     (dict_get (options (hello_request False)) ''api_key'') (model (hello_request False)) empty_server
   = (Inr scenario_provider,
      empty_server\<lparr>llm_providers := [(''openai_default'', scenario_provider)]\<rparr>)"
    unfolding failing_env_def by (rule scenario_provider_created)
  have eng: "get_or_create_prompt_engineer failing_env scenario_provider
     (empty_server\<lparr>llm_providers := [(''openai_default'', scenario_provider)]\<rparr>) empty_world
   = (Inr (scenario_engineer failing_env),
      \<lparr>llm_providers = [(''openai_default'', scenario_provider)],
       prompt_engineers = [(0, scenario_engineer failing_env)]\<rparr>, ?w1)"
    unfolding failing_env_def by (rule scenario_engineer_created)
  from process_prompt_final_failure [OF prov eng enh' fails]
  show ?thesis by simp
qed

text \<open>
  Claim C10. For a request that is not bypassed, the enhancement index returned is the
  length of the history after \<open>enhance_prompt\<close>, minus one, whether or not the
  enhancement call succeeded. When that call failed, the prompt engineer is unchanged, the
  prompt goes on as it came, and the index is the length of the unchanged history minus
  one: \<open>-1\<close> on an empty history, otherwise the index of a record that was there before
  this request.
\<close>

theorem process_prompt_enhancement_index:
  assumes prov: "get_or_create_provider env (provider req) (dict_get (options req) ''api_key'')
             (model req) srv = (Inr p, srv1)"
    and eng: "get_or_create_prompt_engineer env p srv1 w = (Inr eng, srv2, w1)"
    and enhanced: "\<not> bypass_enhancement req"
    and enh: "enhance_prompt env (prompt req) eng w1 = (Inr final_prompt, eng1, w2)"
    and answer: "llm env (calls w2) (p, final_prompt, options req) = Inr answer"
  shows "fst (process_prompt env req srv w)
         = Inr \<lparr>response = answer,
                enhancement_index = Some (int (length (enhancement_history eng1)) - 1)\<rparr>
     \<and> map_of (prompt_engineers (fst (snd (process_prompt env req srv w)))) (ident p) = Some eng1
     \<and> (\<forall>rule tmpl m sp e.
          enhancement_rules eng (detect_prompt_type (prompt req)) = Some rule
          \<and> getitem rule ''template'' = Inr tmpl
          \<and> format_method (format_other env) tmpl (prompt req) = Inr m
          \<and> getitem rule ''system_prompt'' = Inr sp
          \<and> llm env (calls w1) (llm_provider eng, m, [(''system_prompt'', sp)]) = Inl e
          \<longrightarrow> eng1 = eng \<and> final_prompt = prompt req
            \<and> fst (process_prompt env req srv w)
                = Inr \<lparr>response = answer,
                       enhancement_index = Some (int (length (enhancement_history eng)) - 1)\<rparr>
            \<and> (enhancement_history eng = [] \<longrightarrow>
                 fst (process_prompt env req srv w)
                   = Inr \<lparr>response = answer, enhancement_index = Some (- 1)\<rparr>)
            \<and> (enhancement_history eng \<noteq> [] \<longrightarrow>
                 0 \<le> int (length (enhancement_history eng)) - 1
                 \<and> int (length (enhancement_history eng)) - 1
                     < int (length (enhancement_history eng))))"
proof -
  have run: "enhance_and_answer env req p eng w1
      = (Inr \<lparr>response = answer,
               enhancement_index = Some (int (length (enhancement_history eng1)) - 1)\<rparr>, eng1,
         w2\<lparr>calls := calls w2 @ [(p, final_prompt, options req)]\<rparr>)"
    using enhance_and_answer_enhanced [OF enhanced enh, of p] answer by simp
  note steps = process_prompt_steps [OF prov eng run]
  have c1: "fst (process_prompt env req srv w)
         = Inr \<lparr>response = answer,
                enhancement_index = Some (int (length (enhancement_history eng1)) - 1)\<rparr>"
    using steps by simp
  have c2: "map_of (prompt_engineers (fst (snd (process_prompt env req srv w)))) (ident p) = Some eng1"
    using steps by (simp add: map_of_dict_store)
  have c3: "eng1 = eng \<and> final_prompt = prompt req"
    if "enhancement_rules eng (detect_prompt_type (prompt req)) = Some rule"
      and "getitem rule ''template'' = Inr tmpl"
      and "format_method (format_other env) tmpl (prompt req) = Inr m"
      and "getitem rule ''system_prompt'' = Inr sp"
      and "llm env (calls w1) (llm_provider eng, m, [(''system_prompt'', sp)]) = Inl e"
    for rule tmpl m sp e
    using enhance_prompt_after_format [OF that(1,2,3,4), of w1] that(5) enh by simp
  show ?thesis
  proof (intro conjI allI impI)
    show "fst (process_prompt env req srv w)
         = Inr \<lparr>response = answer,
                enhancement_index = Some (int (length (enhancement_history eng1)) - 1)\<rparr>"
      by (rule c1)
    show "map_of (prompt_engineers (fst (snd (process_prompt env req srv w)))) (ident p) = Some eng1"
      by (rule c2)
  qed (use c1 c3 in \<open>auto\<close>)
qed

theorem process_prompt_enhancement_index_witness:
  "\<not> bypass_enhancement (hello_request False)
   \<and> fst (process_prompt recovering_env (hello_request False) empty_server empty_world)
     = Inr \<lparr>response = ''Hi there'', enhancement_index = Some (- 1)\<rparr>
   \<and> map_of (prompt_engineers
        (fst (snd (process_prompt recovering_env (hello_request False) empty_server empty_world)))) 0
     = Some (scenario_engineer recovering_env)
   \<and> enhancement_history (scenario_engineer recovering_env) = []"
proof -
  let ?w1 = "log_to INFO ''No custom enhancement rules found or invalid format.'' empty_world"
  let ?e = "PyException ''Timeout'' ''timed out''"
  let ?m = "before_field (template default_rule) @ ''hello'' @ after_field (template default_rule)"
  have nb: "\<not> bypass_enhancement (hello_request False)" by (simp add: hello_request_sel)
  have rule: "enhancement_rules (scenario_engineer recovering_env)
     (detect_prompt_type (prompt (hello_request False))) = Some (rule_dict default_rule)"
    unfolding recovering_env_def hello_request_sel by (rule scenario_engineer_rule_hello)
  have fmt: "format_method (format_other recovering_env) (PyStr (template default_rule))
      (prompt (hello_request False)) = Inr ?m"
    unfolding hello_request_sel by (rule default_format_hello)
  have first: "llm recovering_env (calls ?w1) (llm_provider (scenario_engineer recovering_env), ?m,
      [(''system_prompt'', PyStr (system_prompt default_rule))]) = Inl ?e"
    by (simp add: recovering_env_def scenario_env_sel llm_fails_first_def log_to_def empty_world_def)
  obtain w2 where enh: "enhance_prompt recovering_env (prompt (hello_request False))
        (scenario_engineer recovering_env) ?w1
      = (Inr ''hello'', scenario_engineer recovering_env, w2)"
    and calls_w2: "calls w2 \<noteq> []"
    using enhance_prompt_after_format
      [OF rule getitem_rule_dict(1) fmt getitem_rule_dict(2), of ?w1] first
    by (simp add: hello_request_sel log_to_def)
  have answer: "llm recovering_env (calls w2)
      (scenario_provider, ''hello'', options (hello_request False)) = Inr ''Hi there''"
    using calls_w2 by (simp add: recovering_env_def scenario_env_sel llm_fails_first_def)
  have prov: "get_or_create_provider recovering_env (provider (hello_request False))
     (dict_get (options (hello_request False)) ''api_key'') (model (hello_request False)) empty_server
   = (Inr scenario_provider,
      empty_server\<lparr>llm_providers := [(''openai_default'', scenario_provider)]\<rparr>)"
    unfolding recovering_env_def by (rule scenario_provider_created)
  have eng: "get_or_create_prompt_engineer recovering_env scenario_provider
     (empty_server\<lparr>llm_providers := [(''openai_default'', scenario_provider)]\<rparr>) empty_world
   = (Inr (scenario_engineer recovering_env),
      \<lparr>llm_providers = [(''openai_default'', scenario_provider)],
       prompt_engineers = [(0, scenario_engineer recovering_env)]\<rparr>, ?w1)"
    unfolding recovering_env_def by (rule scenario_engineer_created)
  have empty: "enhancement_history (scenario_engineer recovering_env) = []"
    by (simp add: recovering_env_def scenario_engineer_plain)
  from process_prompt_enhancement_index [OF prov eng nb enh answer] nb empty
  show ?thesis by (simp add: scenario_provider_def)
qed


end
